theory Spec2Isabelle
  imports Main "HOL-Library.Word"
begin

section \<open>gomod-zip: packaging a checked-out module into the module cache\<close>

text \<open>
  The program is \<^verbatim>\<open>cmd/gomod-zip/zip.go\<close>: \<^verbatim>\<open>main\<close>, \<^verbatim>\<open>getModuleFile\<close> and
  \<^verbatim>\<open>createZipArchive\<close>. Everything the program calls outside its own file (the
  environment variable, the semantic-version parser, the file system, the descriptor
  parser, the archive builder) is a field of the record \<open>world\<close>: the program is
  verified for every behaviour of these, and none of them is fixed here.
  The string helpers of the Go standard library that the program uses to build paths
  and messages (\<^verbatim>\<open>strings.TrimPrefix\<close>, \<^verbatim>\<open>fmt.Sprintf\<close> with \<^verbatim>\<open>%s\<close> and \<^verbatim>\<open>%d\<close>,
  \<^verbatim>\<open>filepath.Join\<close> on a slash-separated system) are written out.
\<close>

subsection \<open>Errors\<close>

text \<open>
  A Go \<^verbatim>\<open>error\<close>: \<open>New\<close> is \<^verbatim>\<open>errors.New\<close> (and any error made by the
  environment), \<open>Wrap msg e\<close> is what \<^verbatim>\<open>fmt.Errorf\<close> with a \<^verbatim>\<open>%w\<close> verb returns: the
  formatted message and the error it wraps.
\<close>

datatype error = New string | Wrap string error

fun Error :: "error \<Rightarrow> string" where
  "Error (New s) = s"
| "Error (Wrap s e) = s"

fun Unwrap :: "error \<Rightarrow> error option" where
  "Unwrap (New s) = None"
| "Unwrap (Wrap s e) = Some e"

text \<open>\<^verbatim>\<open>fmt.Errorf(prefix + "%w", err)\<close>: the text of \<open>err\<close> follows the prefix.\<close>

definition Errorf_w :: "string \<Rightarrow> error \<Rightarrow> error" where
  "Errorf_w prefix err = Wrap (prefix @ Error err) err"

subsection \<open>Strings and paths\<close>

type_synonym bytes = "8 word list"

text \<open>\<^verbatim>\<open>strings.TrimPrefix\<close>: one occurrence of the prefix is removed, when present.\<close>

definition strings_TrimPrefix :: "string \<Rightarrow> string \<Rightarrow> string" where
  "strings_TrimPrefix s prefix =
     (if take (length prefix) s = prefix then drop (length prefix) s else s)"

definition strings_HasSuffix :: "string \<Rightarrow> string \<Rightarrow> bool" where
  "strings_HasSuffix s suffix =
     (length suffix \<le> length s \<and> drop (length s - length suffix) s = suffix)"

fun strings_Join :: "string list \<Rightarrow> string \<Rightarrow> string" where
  "strings_Join [] sep = []"
| "strings_Join [e] sep = e"
| "strings_Join (e # es) sep = e @ sep @ strings_Join es sep"

text \<open>The verb \<^verbatim>\<open>%d\<close> on an unsigned integer: its decimal digits, no sign, no padding.\<close>

definition digit :: "nat \<Rightarrow> char" where
  "digit d = ''0123456789'' ! (d mod 10)"

function itoa :: "nat \<Rightarrow> string" where
  "itoa n = (if n < 10 then [digit n] else itoa (n div 10) @ [digit (n mod 10)])"
  by pat_completeness auto
termination
  by (relation "measure id") auto

declare itoa.simps [simp del]

text \<open>Splitting a path at every separator; empty components are kept.\<close>

fun split_sep :: "char \<Rightarrow> string \<Rightarrow> string list" where
  "split_sep c [] = [[]]"
| "split_sep c (x # xs) =
     (if x = c then [] # split_sep c xs
      else (case split_sep c xs of
              [] \<Rightarrow> [[x]]
            | y # ys \<Rightarrow> (x # y) # ys))"

text \<open>
  \<^verbatim>\<open>filepath.Clean\<close> on a slash-separated system, by its documented rules: runs of
  separators become one, every \<^verbatim>\<open>.\<close> component goes, every inner \<^verbatim>\<open>..\<close> goes with
  the component before it, a \<^verbatim>\<open>..\<close> at the root goes, and the empty result is
  \<^verbatim>\<open>.\<close>. The components kept so far are a stack, last one first.
\<close>

definition clean_step :: "bool \<Rightarrow> string list \<Rightarrow> string \<Rightarrow> string list" where
  "clean_step rooted st c =
     (if c = ''..'' then
        (case st of
           [] \<Rightarrow> if rooted then [] else [c]
         | t # ts \<Rightarrow> if t = ''..'' then c # st else ts)
      else c # st)"

definition filepath_Clean :: "string \<Rightarrow> string" where
  "filepath_Clean p =
     (case p of
        [] \<Rightarrow> ''.''
      | x # xs \<Rightarrow>
          (let rooted = (x = CHR ''/'');
               comps = filter (\<lambda>c. c \<noteq> [] \<and> c \<noteq> ''.'') (split_sep CHR ''/'' p);
               body = strings_Join (rev (foldl (clean_step rooted) [] comps)) ''/''
           in if rooted then ''/'' @ body
              else if body = [] then ''.'' else body))"

text \<open>
  \<^verbatim>\<open>filepath.Join\<close>: leading empty elements are skipped, the rest is joined with the
  separator and cleaned; with no non-empty element the result is empty.
\<close>

definition filepath_Join :: "string list \<Rightarrow> string" where
  "filepath_Join elem =
     (case dropWhile (\<lambda>e. e = []) elem of
        [] \<Rightarrow> []
      | es \<Rightarrow> filepath_Clean (strings_Join es ''/''))"

subsection \<open>Data of the libraries\<close>

text \<open>\<^verbatim>\<open>semver.Version\<close>: three unsigned 64-bit numbers, pre-release and build parts.\<close>

record semver_Version =
  Major :: "64 word"
  Minor :: "64 word"
  Patch :: "64 word"
  Pre :: "string list"
  Build :: "string list"

text \<open>\<^verbatim>\<open>module.Version\<close>, and of \<^verbatim>\<open>modfile.File\<close> the part the program touches: the
  pointer \<^verbatim>\<open>Module\<close>, \<open>None\<close> when it is nil.\<close>

record module_Version =
  Path :: string
  Version :: string

record modfile_Module =
  Mod :: module_Version

record modfile_File =
  Module :: "modfile_Module option"

subsection \<open>The environment and the effects of a run\<close>

text \<open>
  \<^verbatim>\<open>os.WriteFile\<close> opens the file (creating or truncating it), writes, and closes.
  It can fail before the file exists or is touched (\<open>WriteRefused\<close>), or after that,
  leaving the file with the bytes that did reach it (\<open>WriteBroken\<close>).
\<close>

datatype write_result =
    WriteDone
  | WriteRefused error
  | WriteBroken bytes error

record world =
  GOPATH :: string
  semver_Parse :: "string \<Rightarrow> error + semver_Version"
  os_Open :: "string \<Rightarrow> error option"
  io_ReadAll :: "string \<Rightarrow> error + bytes"
  modfile_Parse :: "string \<Rightarrow> bytes \<Rightarrow> error + modfile_File"
  modzip_CreateFromDir :: "module_Version \<Rightarrow> string \<Rightarrow> error + bytes"
  os_WriteFile :: "string \<Rightarrow> bytes \<Rightarrow> nat \<Rightarrow> write_result"

text \<open>
  The file operations of a run, in order, with their arguments. The deferred
  \<^verbatim>\<open>Close\<close> of the descriptor, whose result the program drops, is not recorded.
\<close>

datatype io_event =
    EvOpen string
  | EvReadAll string
  | EvCreateFromDir module_Version string
  | EvWriteFile string bytes nat

text \<open>The files below the output directory: path to content.\<close>

type_synonym store = "string \<rightharpoonup> bytes"

subsection \<open>getModuleFile\<close>

definition getModuleFile ::
  "world \<Rightarrow> string \<Rightarrow> string \<Rightarrow> io_event list \<times> (error + modfile_File)" where
  "getModuleFile w packagePath version =
     (let goModPath = filepath_Join [packagePath, ''go.mod''] in
      case os_Open w goModPath of
        Some err \<Rightarrow>
          ([EvOpen goModPath],
           Inl (Errorf_w (''error opening '' @ goModPath @ '': '') err))
      | None \<Rightarrow>
          (case io_ReadAll w goModPath of
             Inl err \<Rightarrow>
               ([EvOpen goModPath, EvReadAll goModPath],
                Inl (Errorf_w (''error reading '' @ goModPath @ '': '') err))
           | Inr moduleBytes \<Rightarrow>
               (case modfile_Parse w packagePath moduleBytes of
                  Inl err \<Rightarrow>
                    ([EvOpen goModPath, EvReadAll goModPath],
                     Inl (Errorf_w ''error parsing module file: '' err))
                | Inr moduleFile \<Rightarrow>
                    (case Module moduleFile of
                       None \<Rightarrow>
                         ([EvOpen goModPath, EvReadAll goModPath],
                          Inl (New ''parsed module should not be nil''))
                     | Some m \<Rightarrow>
                         ([EvOpen goModPath, EvReadAll goModPath],
                          Inr (moduleFile
                                 \<lparr>Module := Some (m\<lparr>Mod := (Mod m)\<lparr>Version := version\<rparr>\<rparr>)\<rparr>))))))"

subsection \<open>createZipArchive\<close>

text \<open>The permission bits \<^verbatim>\<open>0o644\<close>, octal: \<^verbatim>\<open>rw-r--r--\<close>.\<close>

definition mode_0o644 :: nat where
  "mode_0o644 = 6 * 8 * 8 + 4 * 8 + 4"

text \<open>
  The function reads \<^verbatim>\<open>moduleFile.Module.Mod\<close> without a check: on a nil
  \<^verbatim>\<open>Module\<close> it panics (\<open>NilDeref\<close>). Otherwise it returns nil or an error.
\<close>

datatype zip_result = Returned "error option" | NilDeref

definition createZipArchive ::
  "world \<Rightarrow> string \<Rightarrow> modfile_File \<Rightarrow> string \<Rightarrow> store
     \<Rightarrow> io_event list \<times> store \<times> zip_result" where
  "createZipArchive w packagePath moduleFile outputDirectory fs =
     (case Module moduleFile of
        None \<Rightarrow> ([], fs, NilDeref)
      | Some m \<Rightarrow>
          (let zipFilePath = filepath_Join [outputDirectory, Version (Mod m) @ ''.zip''] in
           case modzip_CreateFromDir w (Mod m) packagePath of
             Inl err \<Rightarrow>
               ([EvCreateFromDir (Mod m) packagePath], fs,
                Returned (Some (Errorf_w ''create zip from dir: '' err)))
           | Inr zipContents \<Rightarrow>
               (let evs = [EvCreateFromDir (Mod m) packagePath,
                           EvWriteFile zipFilePath zipContents mode_0o644] in
                case os_WriteFile w zipFilePath zipContents mode_0o644 of
                  WriteDone \<Rightarrow> (evs, fs(zipFilePath \<mapsto> zipContents), Returned None)
                | WriteRefused err \<Rightarrow>
                    (evs, fs, Returned (Some (Errorf_w ''writing zip file: '' err)))
                | WriteBroken part err \<Rightarrow>
                    (evs, fs(zipFilePath \<mapsto> part),
                     Returned (Some (Errorf_w ''writing zip file: '' err))))))"

subsection \<open>main\<close>

text \<open>
  \<^verbatim>\<open>glog.Fatalf\<close> logs its message and ends the process: a run ends as
  \<open>Fatal\<close> with the messages logged, as \<open>Exit0\<close>, or in a panic.
\<close>

datatype outcome = Exit0 | Fatal | Panicked

record run =
  outcome :: outcome
  diagnostics :: "string list"
  events :: "io_event list"
  files :: store

definition glog_Fatalf :: "string \<Rightarrow> io_event list \<Rightarrow> store \<Rightarrow> run" where
  "glog_Fatalf msg evs fs =
     \<lparr>outcome = Fatal, diagnostics = [msg], events = evs, files = fs\<rparr>"

text \<open>Lines 72 to 76: the source directory and the output directory.\<close>

definition packagePath_of :: "world \<Rightarrow> string \<Rightarrow> string" where
  "packagePath_of w packageName = GOPATH w @ ''/src/'' @ packageName"

definition cacheDir_of :: "world \<Rightarrow> string \<Rightarrow> semver_Version \<Rightarrow> string" where
  "cacheDir_of w packageName pseudoSemver =
     (let cacheDir = GOPATH w @ ''/pkg/mod/cache/download/'' @ packageName @ ''/@v'' in
      if 2 \<le> Major pseudoSemver
      then cacheDir @ ''/v'' @ itoa (unat (Major pseudoSemver))
      else cacheDir)"

definition main :: "world \<Rightarrow> string \<Rightarrow> string \<Rightarrow> store \<Rightarrow> run" where
  "main w packageName pseudoVersion fs =
     (if packageName = [] then glog_Fatalf ''package-name cannot be empty'' [] fs
      else if pseudoVersion = [] then glog_Fatalf ''pseudo-version cannot be empty'' [] fs
      else
        (case semver_Parse w (strings_TrimPrefix pseudoVersion ''v'') of
           Inl err \<Rightarrow>
             glog_Fatalf (''error parsing pseudo-version: '' @ Error err) [] fs
         | Inr pseudoSemver \<Rightarrow>
             (let packagePath = packagePath_of w packageName;
                  cacheDir = cacheDir_of w packageName pseudoSemver
              in case getModuleFile w packagePath pseudoVersion of
                   (evs, Inl err) \<Rightarrow>
                     glog_Fatalf (''error getting module file: '' @ Error err) evs fs
                 | (evs, Inr moduleFile) \<Rightarrow>
                     (case createZipArchive w packagePath moduleFile cacheDir fs of
                        (evs', fs', NilDeref) \<Rightarrow>
                          \<lparr>outcome = Panicked, diagnostics = [],
                           events = evs @ evs', files = fs'\<rparr>
                      | (evs', fs', Returned (Some err)) \<Rightarrow>
                          glog_Fatalf (''error creating zip archive: '' @ Error err)
                            (evs @ evs') fs'
                      | (evs', fs', Returned None) \<Rightarrow>
                          \<lparr>outcome = Exit0, diagnostics = [],
                           events = evs @ evs', files = fs'\<rparr>))))"

text \<open>
  The two paths of files that a run touches, as the program computes them: the
  descriptor that \<^verbatim>\<open>getModuleFile\<close> opens and the archive that
  \<^verbatim>\<open>createZipArchive\<close> writes.
\<close>

definition goModPath_of :: "world \<Rightarrow> string \<Rightarrow> string" where
  "goModPath_of w packageName = filepath_Join [packagePath_of w packageName, ''go.mod'']"

definition zipFilePath_of :: "world \<Rightarrow> string \<Rightarrow> semver_Version \<Rightarrow> string \<Rightarrow> string" where
  "zipFilePath_of w packageName pseudoSemver pseudoVersion =
     filepath_Join [cacheDir_of w packageName pseudoSemver, pseudoVersion @ ''.zip'']"

subsection \<open>An example environment\<close>

text \<open>
  A workspace \<^verbatim>\<open>/go\<close> that holds the module \<^verbatim>\<open>example.com/foo\<close> and nothing else;
  the version parser knows two versions. The theorems below hold for every
  environment; this one serves to run them on concrete inputs.
\<close>

definition demo_semver :: "string \<Rightarrow> error + semver_Version" where
  "demo_semver s =
     (if s = ''1.0.0''
      then Inr \<lparr>Major = 1, Minor = 0, Patch = 0, Pre = [], Build = []\<rparr>
      else if s = ''2.3.1''
      then Inr \<lparr>Major = 2, Minor = 3, Patch = 1, Pre = [], Build = []\<rparr>
      else Inl (New ''Invalid character(s) found in major number''))"

definition demo_file :: modfile_File where
  "demo_file =
     \<lparr>Module = Some \<lparr>Mod = \<lparr>Path = ''example.com/foo'', Version = []\<rparr>\<rparr>\<rparr>"

definition demo_world :: world where
  "demo_world =
     \<lparr>GOPATH = ''/go'',
      semver_Parse = demo_semver,
      os_Open = (\<lambda>p. if p = ''/go/src/example.com/foo/go.mod'' then None
                     else Some (New ''no such file or directory'')),
      io_ReadAll = (\<lambda>p. Inr [109, 111, 100]),
      modfile_Parse = (\<lambda>name b. Inr demo_file),
      modzip_CreateFromDir = (\<lambda>m dir. Inr [80, 75]),
      os_WriteFile = (\<lambda>p b m. WriteDone)\<rparr>"

text \<open>The same workspace on a full disk: the archive is created, then the write fails.\<close>

definition full_disk_world :: world where
  "full_disk_world =
     demo_world\<lparr>os_WriteFile :=
       (\<lambda>p b m. WriteBroken [] (New ''no space left on device''))\<rparr>"

text \<open>The same workspace with a descriptor that declares no module.\<close>

definition no_module_world :: world where
  "no_module_world = demo_world\<lparr>modfile_Parse := (\<lambda>name b. Inr \<lparr>Module = None\<rparr>)\<rparr>"

text \<open>
  The same workspace with the descriptor of a major version 2: the checkout at
  \<^verbatim>\<open>/go/src/example.com/foo\<close> declares the module \<^verbatim>\<open>example.com/foo/v2\<close>.
\<close>

definition major2_world :: world where
  "major2_world =
     demo_world\<lparr>modfile_Parse := (\<lambda>name b.
       Inr \<lparr>Module = Some \<lparr>Mod = \<lparr>Path = ''example.com/foo/v2'', Version = []\<rparr>\<rparr>\<rparr>)\<rparr>"

text \<open>
  The same workspace with an archive builder that refuses a version without the
  leading \<^verbatim>\<open>v\<close>, as the module archive builder of Go does with every version that
  is not canonical.
\<close>

definition canonical_world :: world where
  "canonical_world =
     demo_world\<lparr>modzip_CreateFromDir := (\<lambda>m dir.
       if take 1 (Version m) = ''v'' then Inr [80, 75]
       else Inl (New ''version is not canonical''))\<rparr>"


text \<open>A second version parser: it answers every string with version 1.7.9-rc.\<close>

definition other_semver :: "string \<Rightarrow> error + semver_Version" where
  "other_semver s = Inr \<lparr>Major = 1, Minor = 7, Patch = 9, Pre = [''rc''], Build = []\<rparr>"


subsection \<open>The failure paths of the specification\<close>

text \<open>
  The failures that the specification lists, read off the environment: an empty flag,
  a version that does not parse, a descriptor that does not open, read or parse, a
  descriptor without a module declaration, a failure of the archive builder, a
  failure of the write.
\<close>

definition failure_path :: "world \<Rightarrow> string \<Rightarrow> string \<Rightarrow> bool" where
  "failure_path w p v =
     (p = [] \<or> v = [] \<or>
      (case semver_Parse w (strings_TrimPrefix v ''v'') of
         Inl e \<Rightarrow> True
       | Inr sv \<Rightarrow>
           (case os_Open w (goModPath_of w p) of
              Some e \<Rightarrow> True
            | None \<Rightarrow>
                (case io_ReadAll w (goModPath_of w p) of
                   Inl e \<Rightarrow> True
                 | Inr b \<Rightarrow>
                     (case modfile_Parse w (packagePath_of w p) b of
                        Inl e \<Rightarrow> True
                      | Inr mf \<Rightarrow>
                          (case Module mf of
                             None \<Rightarrow> True
                           | Some m \<Rightarrow>
                               (case modzip_CreateFromDir w ((Mod m)\<lparr>Version := v\<rparr>)
                                       (packagePath_of w p) of
                                  Inl e \<Rightarrow> True
                                | Inr zc \<Rightarrow>
                                    os_WriteFile w (zipFilePath_of w p sv v) zc mode_0o644
                                      \<noteq> WriteDone)))))))"


text \<open>The failure paths that end before the write is attempted.\<close>

definition fails_before_write :: "world \<Rightarrow> string \<Rightarrow> string \<Rightarrow> bool" where
  "fails_before_write w p v =
     (p = [] \<or> v = [] \<or>
      (case semver_Parse w (strings_TrimPrefix v ''v'') of
         Inl e \<Rightarrow> True
       | Inr sv \<Rightarrow>
           (case os_Open w (goModPath_of w p) of
              Some e \<Rightarrow> True
            | None \<Rightarrow>
                (case io_ReadAll w (goModPath_of w p) of
                   Inl e \<Rightarrow> True
                 | Inr b \<Rightarrow>
                     (case modfile_Parse w (packagePath_of w p) b of
                        Inl e \<Rightarrow> True
                      | Inr mf \<Rightarrow>
                          (case Module mf of
                             None \<Rightarrow> True
                           | Some m \<Rightarrow>
                               (case modzip_CreateFromDir w ((Mod m)\<lparr>Version := v\<rparr>)
                                       (packagePath_of w p) of
                                  Inl e \<Rightarrow> True
                                | Inr zc \<Rightarrow> False)))))))"

text \<open>The store before a first run: nothing is below the output directory.\<close>

definition no_files :: store where
  "no_files = Map.empty"

section \<open>Properties\<close>

subsection \<open>Paths and the steps of a run\<close>

lemma filepath_Join_pair:
  "a \<noteq> [] \<Longrightarrow> filepath_Join [a, b] = filepath_Clean (a @ ''/'' @ b)"
  by (cases a) (simp_all add: filepath_Join_def)

lemma packagePath_of_nonempty: "packagePath_of w p \<noteq> []"
  by (simp add: packagePath_of_def)

lemma cacheDir_of_nonempty: "cacheDir_of w p sv \<noteq> []"
  by (simp add: cacheDir_of_def Let_def)

lemma goModPath_of_eq:
  "goModPath_of w p = filepath_Clean (GOPATH w @ ''/src/'' @ p @ ''/go.mod'')"
  by (simp add: goModPath_of_def filepath_Join_pair packagePath_of_nonempty)
     (simp add: packagePath_of_def)

lemma zipFilePath_of_eq:
  "zipFilePath_of w p sv v =
     filepath_Clean (GOPATH w @ ''/pkg/mod/cache/download/'' @ p @ ''/@v''
        @ (if 2 \<le> Major sv then ''/v'' @ itoa (unat (Major sv)) else [])
        @ ''/'' @ v @ ''.zip'')"
  by (simp add: zipFilePath_of_def filepath_Join_pair cacheDir_of_nonempty)
     (simp add: cacheDir_of_def Let_def)

lemma getModuleFile_open_error:
  assumes "os_Open w (goModPath_of w p) = Some e"
  shows "getModuleFile w (packagePath_of w p) v =
           ([EvOpen (goModPath_of w p)],
            Inl (Wrap (''error opening '' @ goModPath_of w p @ '': '' @ Error e) e))"
  using assms by (simp add: getModuleFile_def goModPath_of_def Let_def Errorf_w_def)

lemma getModuleFile_read_error:
  assumes "os_Open w (goModPath_of w p) = None"
    and "io_ReadAll w (goModPath_of w p) = Inl e"
  shows "getModuleFile w (packagePath_of w p) v =
           ([EvOpen (goModPath_of w p), EvReadAll (goModPath_of w p)],
            Inl (Wrap (''error reading '' @ goModPath_of w p @ '': '' @ Error e) e))"
  using assms by (simp add: getModuleFile_def goModPath_of_def Let_def Errorf_w_def)

lemma getModuleFile_parse_error:
  assumes "os_Open w (goModPath_of w p) = None"
    and "io_ReadAll w (goModPath_of w p) = Inr b"
    and "modfile_Parse w (packagePath_of w p) b = Inl e"
  shows "getModuleFile w (packagePath_of w p) v =
           ([EvOpen (goModPath_of w p), EvReadAll (goModPath_of w p)],
            Inl (Wrap (''error parsing module file: '' @ Error e) e))"
  using assms by (simp add: getModuleFile_def goModPath_of_def Let_def Errorf_w_def)

lemma getModuleFile_nil_module:
  assumes "os_Open w (goModPath_of w p) = None"
    and "io_ReadAll w (goModPath_of w p) = Inr b"
    and "modfile_Parse w (packagePath_of w p) b = Inr mf"
    and "Module mf = None"
  shows "getModuleFile w (packagePath_of w p) v =
           ([EvOpen (goModPath_of w p), EvReadAll (goModPath_of w p)],
            Inl (New ''parsed module should not be nil''))"
  using assms by (simp add: getModuleFile_def goModPath_of_def Let_def)

lemma getModuleFile_ok:
  assumes "os_Open w (goModPath_of w p) = None"
    and "io_ReadAll w (goModPath_of w p) = Inr b"
    and "modfile_Parse w (packagePath_of w p) b = Inr mf"
    and "Module mf = Some m"
  shows "getModuleFile w (packagePath_of w p) v =
           ([EvOpen (goModPath_of w p), EvReadAll (goModPath_of w p)],
            Inr (mf\<lparr>Module := Some (m\<lparr>Mod := (Mod m)\<lparr>Version := v\<rparr>\<rparr>)\<rparr>))"
  using assms by (simp add: getModuleFile_def goModPath_of_def Let_def)

lemma getModuleFile_no_write:
  "EvWriteFile path zc mode \<notin> set (fst (getModuleFile w pp v))"
  by (simp add: getModuleFile_def Let_def split: option.splits sum.splits)

lemma getModuleFile_stamped:
  "snd (getModuleFile w pp v) = Inr mf \<Longrightarrow> \<exists>m. Module mf = Some m \<and> Version (Mod m) = v"
  by (auto simp add: getModuleFile_def Let_def split: option.splits sum.splits)

lemma main_parsed:
  assumes "p \<noteq> []" and "v \<noteq> []"
    and "semver_Parse w (strings_TrimPrefix v ''v'') = Inr sv"
  shows "main w p v fs =
     (case getModuleFile w (packagePath_of w p) v of
        (evs, Inl err) \<Rightarrow>
          glog_Fatalf (''error getting module file: '' @ Error err) evs fs
      | (evs, Inr moduleFile) \<Rightarrow>
          (case createZipArchive w (packagePath_of w p) moduleFile (cacheDir_of w p sv) fs of
             (evs', fs', NilDeref) \<Rightarrow>
               \<lparr>outcome = Panicked, diagnostics = [], events = evs @ evs', files = fs'\<rparr>
           | (evs', fs', Returned (Some err)) \<Rightarrow>
               glog_Fatalf (''error creating zip archive: '' @ Error err) (evs @ evs') fs'
           | (evs', fs', Returned None) \<Rightarrow>
               \<lparr>outcome = Exit0, diagnostics = [], events = evs @ evs', files = fs'\<rparr>))"
  using assms by (simp add: main_def Let_def)

lemma createZipArchive_stamped:
  "createZipArchive w (packagePath_of w p)
       (mf\<lparr>Module := Some (m\<lparr>Mod := (Mod m)\<lparr>Version := v\<rparr>\<rparr>)\<rparr>) (cacheDir_of w p sv) fs =
     (case modzip_CreateFromDir w ((Mod m)\<lparr>Version := v\<rparr>) (packagePath_of w p) of
        Inl err \<Rightarrow>
          ([EvCreateFromDir ((Mod m)\<lparr>Version := v\<rparr>) (packagePath_of w p)], fs,
           Returned (Some (Wrap (''create zip from dir: '' @ Error err) err)))
      | Inr zc \<Rightarrow>
          (case os_WriteFile w (zipFilePath_of w p sv v) zc mode_0o644 of
             WriteDone \<Rightarrow>
               ([EvCreateFromDir ((Mod m)\<lparr>Version := v\<rparr>) (packagePath_of w p),
                 EvWriteFile (zipFilePath_of w p sv v) zc mode_0o644],
                fs(zipFilePath_of w p sv v \<mapsto> zc), Returned None)
           | WriteRefused err \<Rightarrow>
               ([EvCreateFromDir ((Mod m)\<lparr>Version := v\<rparr>) (packagePath_of w p),
                 EvWriteFile (zipFilePath_of w p sv v) zc mode_0o644],
                fs, Returned (Some (Wrap (''writing zip file: '' @ Error err) err)))
           | WriteBroken part err \<Rightarrow>
               ([EvCreateFromDir ((Mod m)\<lparr>Version := v\<rparr>) (packagePath_of w p),
                 EvWriteFile (zipFilePath_of w p sv v) zc mode_0o644],
                fs(zipFilePath_of w p sv v \<mapsto> part),
                Returned (Some (Wrap (''writing zip file: '' @ Error err) err)))))"
  by (simp add: createZipArchive_def zipFilePath_of_def Let_def Errorf_w_def
      split: sum.splits write_result.splits)

lemma same_GOPATH_paths:
  assumes "GOPATH w' = GOPATH w"
  shows "packagePath_of w' p = packagePath_of w p"
    and "goModPath_of w' p = goModPath_of w p"
    and "cacheDir_of w' p sv = cacheDir_of w p sv"
    and "zipFilePath_of w' p sv v = zipFilePath_of w p sv v"
  using assms
  by (simp_all add: packagePath_of_def goModPath_of_def cacheDir_of_def zipFilePath_of_def)

lemma main_written:
  assumes "p \<noteq> []" and "v \<noteq> []"
    and "semver_Parse w (strings_TrimPrefix v ''v'') = Inr sv"
    and "os_Open w (goModPath_of w p) = None"
    and "io_ReadAll w (goModPath_of w p) = Inr b"
    and "modfile_Parse w (packagePath_of w p) b = Inr mf"
    and "Module mf = Some m"
    and "modzip_CreateFromDir w ((Mod m)\<lparr>Version := v\<rparr>) (packagePath_of w p) = Inr zc"
    and "os_WriteFile w (zipFilePath_of w p sv v) zc mode_0o644 = WriteDone"
  shows "main w p v fs =
           \<lparr>outcome = Exit0, diagnostics = [],
            events = [EvOpen (goModPath_of w p), EvReadAll (goModPath_of w p),
                      EvCreateFromDir ((Mod m)\<lparr>Version := v\<rparr>) (packagePath_of w p),
                      EvWriteFile (zipFilePath_of w p sv v) zc mode_0o644],
            files = fs(zipFilePath_of w p sv v \<mapsto> zc)\<rparr>"
  using assms
  by (simp add: main_parsed getModuleFile_ok createZipArchive_stamped)

lemma main_builder_refuses:
  assumes "p \<noteq> []" and "v \<noteq> []"
    and "semver_Parse w (strings_TrimPrefix v ''v'') = Inr sv"
    and "os_Open w (goModPath_of w p) = None"
    and "io_ReadAll w (goModPath_of w p) = Inr b"
    and "modfile_Parse w (packagePath_of w p) b = Inr mf"
    and "Module mf = Some m"
    and "modzip_CreateFromDir w ((Mod m)\<lparr>Version := v\<rparr>) (packagePath_of w p) = Inl e"
  shows "main w p v fs =
           \<lparr>outcome = Fatal,
            diagnostics = [''error creating zip archive: '' @ ''create zip from dir: ''
                             @ Error e],
            events = [EvOpen (goModPath_of w p), EvReadAll (goModPath_of w p),
                      EvCreateFromDir ((Mod m)\<lparr>Version := v\<rparr>) (packagePath_of w p)],
            files = fs\<rparr>"
  using assms
  by (simp add: main_parsed getModuleFile_ok createZipArchive_stamped glog_Fatalf_def)

subsection \<open>The example environment, evaluated\<close>

lemma itoa_digit: "n < 10 \<Longrightarrow> itoa n = [digit n]"
  by (simp add: itoa.simps)

lemma major_one_small: "\<not> (2::64 word) \<le> 1"
  by (simp add: word_le_nat_alt)

lemma demo_goModPath:
  "goModPath_of demo_world ''example.com/foo'' = ''/go/src/example.com/foo/go.mod''"
  by (simp add: goModPath_of_eq demo_world_def filepath_Clean_def clean_step_def)

lemma demo_goModPath_bar:
  "goModPath_of demo_world ''example.com/bar'' = ''/go/src/example.com/bar/go.mod''"
  by (simp add: goModPath_of_eq demo_world_def filepath_Clean_def clean_step_def)

lemma demo_zipFilePath_v2:
  "zipFilePath_of demo_world ''example.com/foo''
     \<lparr>Major = 2, Minor = 3, Patch = 1, Pre = [], Build = []\<rparr> ''v2.3.1'' =
   ''/go/pkg/mod/cache/download/example.com/foo/@v/v2/v2.3.1.zip''"
  by (simp add: zipFilePath_of_eq demo_world_def filepath_Clean_def clean_step_def
      itoa_digit digit_def)

lemma demo_zipFilePath_v1:
  "zipFilePath_of demo_world ''example.com/foo''
     \<lparr>Major = 1, Minor = 0, Patch = 0, Pre = [], Build = []\<rparr> ''v1.0.0'' =
   ''/go/pkg/mod/cache/download/example.com/foo/@v/v1.0.0.zip''"
  by (simp add: zipFilePath_of_eq demo_world_def filepath_Clean_def clean_step_def
      major_one_small)

lemma demo_parse_v1:
  "semver_Parse demo_world (strings_TrimPrefix ''v1.0.0'' ''v'') =
     Inr \<lparr>Major = 1, Minor = 0, Patch = 0, Pre = [], Build = []\<rparr>"
  by (simp add: demo_world_def demo_semver_def strings_TrimPrefix_def)

lemma demo_parse_bare:
  "semver_Parse demo_world (strings_TrimPrefix ''1.0.0'' ''v'') =
     Inr \<lparr>Major = 1, Minor = 0, Patch = 0, Pre = [], Build = []\<rparr>"
  by (simp add: demo_world_def demo_semver_def strings_TrimPrefix_def)

lemma demo_parse_v2:
  "semver_Parse demo_world (strings_TrimPrefix ''v2.3.1'' ''v'') =
     Inr \<lparr>Major = 2, Minor = 3, Patch = 1, Pre = [], Build = []\<rparr>"
  by (simp add: demo_world_def demo_semver_def strings_TrimPrefix_def)

subsection \<open>C1: the one file a successful run writes\<close>

text \<open>
  C1, as amended. For a non-empty package name and a non-empty pseudo-version whose
  stripped form parses, and when the descriptor opens, reads and parses with a module
  declaration, the archive builder succeeds and the write succeeds, the run ends
  with exit 0, performs exactly four file operations, the last of which is the only
  write: the archive bytes go to
  \<^verbatim>\<open>filepath.Join\<close> of the output directory and \<^verbatim>\<open><pseudo-version>.zip\<close>, that is
  the cleaned form of
  \<^verbatim>\<open><GOPATH>/pkg/mod/cache/download/<package-name>/@v[/v<major>]/<pseudo-version>.zip\<close>,
  with permission bits \<^verbatim>\<open>0o644\<close>, and the source tree is read from
  \<^verbatim>\<open><GOPATH>/src/<package-name>\<close>.
\<close>

theorem main_writes_one_file:
  assumes "packageName \<noteq> []" and "pseudoVersion \<noteq> []"
    and "semver_Parse w (strings_TrimPrefix pseudoVersion ''v'') = Inr sv"
    and "os_Open w (goModPath_of w packageName) = None"
    and "io_ReadAll w (goModPath_of w packageName) = Inr b"
    and "modfile_Parse w (packagePath_of w packageName) b = Inr mf"
    and "Module mf = Some m"
    and "modzip_CreateFromDir w ((Mod m)\<lparr>Version := pseudoVersion\<rparr>)
           (packagePath_of w packageName) = Inr zc"
    and "os_WriteFile w (zipFilePath_of w packageName sv pseudoVersion) zc mode_0o644
           = WriteDone"
  shows "main w packageName pseudoVersion fs =
           \<lparr>outcome = Exit0, diagnostics = [],
            events = [EvOpen (goModPath_of w packageName),
                      EvReadAll (goModPath_of w packageName),
                      EvCreateFromDir ((Mod m)\<lparr>Version := pseudoVersion\<rparr>)
                        (packagePath_of w packageName),
                      EvWriteFile (zipFilePath_of w packageName sv pseudoVersion)
                        zc mode_0o644],
            files = fs(zipFilePath_of w packageName sv pseudoVersion \<mapsto> zc)\<rparr>
       \<and> zipFilePath_of w packageName sv pseudoVersion =
           filepath_Clean (GOPATH w @ ''/pkg/mod/cache/download/'' @ packageName @ ''/@v''
             @ (if 2 \<le> Major sv then ''/v'' @ itoa (unat (Major sv)) else [])
             @ ''/'' @ pseudoVersion @ ''.zip'')
       \<and> packagePath_of w packageName = GOPATH w @ ''/src/'' @ packageName
       \<and> mode_0o644 = 420"
proof -
  have "main w packageName pseudoVersion fs =
           \<lparr>outcome = Exit0, diagnostics = [],
            events = [EvOpen (goModPath_of w packageName),
                      EvReadAll (goModPath_of w packageName),
                      EvCreateFromDir ((Mod m)\<lparr>Version := pseudoVersion\<rparr>)
                        (packagePath_of w packageName),
                      EvWriteFile (zipFilePath_of w packageName sv pseudoVersion)
                        zc mode_0o644],
            files = fs(zipFilePath_of w packageName sv pseudoVersion \<mapsto> zc)\<rparr>"
    using assms
    by (simp add: main_parsed getModuleFile_ok createZipArchive_stamped)
  moreover have "mode_0o644 = 420"
    by (simp add: mode_0o644_def)
  ultimately show ?thesis
    using zipFilePath_of_eq [of w packageName sv pseudoVersion]
    by (simp add: packagePath_of_def)
qed

text \<open>The run on \<^verbatim>\<open>example.com/foo\<close> at \<^verbatim>\<open>v2.3.1\<close> in the example environment.\<close>

theorem main_writes_one_file_witness:
  "main demo_world ''example.com/foo'' ''v2.3.1'' no_files =
     \<lparr>outcome = Exit0, diagnostics = [],
      events = [EvOpen ''/go/src/example.com/foo/go.mod'',
                EvReadAll ''/go/src/example.com/foo/go.mod'',
                EvCreateFromDir \<lparr>Path = ''example.com/foo'', Version = ''v2.3.1''\<rparr>
                  ''/go/src/example.com/foo'',
                EvWriteFile ''/go/pkg/mod/cache/download/example.com/foo/@v/v2/v2.3.1.zip''
                  [80, 75] 420],
      files = no_files(''/go/pkg/mod/cache/download/example.com/foo/@v/v2/v2.3.1.zip''
                \<mapsto> [80, 75])\<rparr>"
proof -
  have open_ok: "os_Open demo_world (goModPath_of demo_world ''example.com/foo'') = None"
    by (simp add: demo_goModPath) (simp add: demo_world_def)
  have read_ok: "io_ReadAll demo_world (goModPath_of demo_world ''example.com/foo'')
      = Inr [109, 111, 100]"
    by (simp add: demo_world_def)
  have parse_ok: "modfile_Parse demo_world (packagePath_of demo_world ''example.com/foo'')
      [109, 111, 100] = Inr demo_file"
    by (simp add: demo_world_def)
  have module_ok: "Module demo_file
      = Some \<lparr>Mod = \<lparr>Path = ''example.com/foo'', Version = []\<rparr>\<rparr>"
    by (simp add: demo_file_def)
  have build_ok: "modzip_CreateFromDir demo_world
      ((Mod \<lparr>Mod = \<lparr>Path = ''example.com/foo'', Version = []\<rparr>\<rparr>)\<lparr>Version := ''v2.3.1''\<rparr>)
      (packagePath_of demo_world ''example.com/foo'') = Inr [80, 75]"
    by (simp add: demo_world_def)
  have write_ok: "os_WriteFile demo_world
      (zipFilePath_of demo_world ''example.com/foo''
         \<lparr>Major = 2, Minor = 3, Patch = 1, Pre = [], Build = []\<rparr> ''v2.3.1'')
      [80, 75] mode_0o644 = WriteDone"
    by (simp add: demo_world_def)
  have src: "packagePath_of demo_world ''example.com/foo'' = ''/go/src/example.com/foo''"
    by (simp add: packagePath_of_def demo_world_def)
  show ?thesis
    using main_writes_one_file [OF _ _ demo_parse_v2 open_ok read_ok parse_ok module_ok
        build_ok write_ok, of no_files]
    by (simp add: demo_goModPath demo_zipFilePath_v2 src)
qed

text \<open>
  C1 as stated asks only for the two flags: it fails where the descriptor is
  missing. Package \<^verbatim>\<open>example.com/bar\<close> is not in the example workspace; the flags
  are valid, and no file is written.
\<close>

theorem main_missing_descriptor_counterexample:
  "semver_Parse demo_world (strings_TrimPrefix ''v1.0.0'' ''v'') =
     Inr \<lparr>Major = 1, Minor = 0, Patch = 0, Pre = [], Build = []\<rparr>
   \<and> main demo_world ''example.com/bar'' ''v1.0.0'' no_files =
     \<lparr>outcome = Fatal,
      diagnostics = [''error getting module file: error opening /go/src/example.com/bar/go.mod: no such file or directory''],
      events = [EvOpen ''/go/src/example.com/bar/go.mod''],
      files = no_files\<rparr>"
proof -
  have open_fails: "os_Open demo_world (goModPath_of demo_world ''example.com/bar'')
      = Some (New ''no such file or directory'')"
    by (simp add: demo_goModPath_bar) (simp add: demo_world_def)
  show ?thesis
    using main_parsed [OF _ _ demo_parse_v1, of "''example.com/bar''" no_files]
      getModuleFile_open_error [OF open_fails, of "''v1.0.0''"]
    by (simp add: demo_parse_v1 demo_goModPath_bar glog_Fatalf_def)
qed

subsection \<open>Every run, by cases\<close>

text \<open>
  A run takes exactly one of eleven paths: the two empty flags, the version that does
  not parse, the four failures of \<^verbatim>\<open>getModuleFile\<close>, the failure of the archive
  builder, the two failures of the write, and success. Each path fixes the whole result.
\<close>

lemma main_cases [case_names empty_name empty_version bad_version open_error read_error
    parse_error nil_module builder_error write_refused write_broken written]:
  assumes "p = [] \<Longrightarrow>
      (\<And>fs. main w p v fs = \<lparr>outcome = Fatal, diagnostics = [''package-name cannot be empty''],
        events = [], files = fs\<rparr>) \<Longrightarrow> thesis"
    and "p \<noteq> [] \<Longrightarrow> v = [] \<Longrightarrow>
      (\<And>fs. main w p v fs = \<lparr>outcome = Fatal, diagnostics = [''pseudo-version cannot be empty''],
        events = [], files = fs\<rparr>) \<Longrightarrow> thesis"
    and "\<And>e. p \<noteq> [] \<Longrightarrow> v \<noteq> [] \<Longrightarrow>
      semver_Parse w (strings_TrimPrefix v ''v'') = Inl e \<Longrightarrow>
      (\<And>fs. main w p v fs = \<lparr>outcome = Fatal,
        diagnostics = [''error parsing pseudo-version: '' @ Error e],
        events = [], files = fs\<rparr>) \<Longrightarrow> thesis"
    and "\<And>sv e. p \<noteq> [] \<Longrightarrow> v \<noteq> [] \<Longrightarrow>
      semver_Parse w (strings_TrimPrefix v ''v'') = Inr sv \<Longrightarrow>
      os_Open w (goModPath_of w p) = Some e \<Longrightarrow>
      (\<And>fs. main w p v fs = \<lparr>outcome = Fatal,
        diagnostics = [''error getting module file: '' @ ''error opening ''
                         @ goModPath_of w p @ '': '' @ Error e],
        events = [EvOpen (goModPath_of w p)], files = fs\<rparr>) \<Longrightarrow> thesis"
    and "\<And>sv e. p \<noteq> [] \<Longrightarrow> v \<noteq> [] \<Longrightarrow>
      semver_Parse w (strings_TrimPrefix v ''v'') = Inr sv \<Longrightarrow>
      os_Open w (goModPath_of w p) = None \<Longrightarrow>
      io_ReadAll w (goModPath_of w p) = Inl e \<Longrightarrow>
      (\<And>fs. main w p v fs = \<lparr>outcome = Fatal,
        diagnostics = [''error getting module file: '' @ ''error reading ''
                         @ goModPath_of w p @ '': '' @ Error e],
        events = [EvOpen (goModPath_of w p), EvReadAll (goModPath_of w p)],
        files = fs\<rparr>) \<Longrightarrow> thesis"
    and "\<And>sv b e. p \<noteq> [] \<Longrightarrow> v \<noteq> [] \<Longrightarrow>
      semver_Parse w (strings_TrimPrefix v ''v'') = Inr sv \<Longrightarrow>
      os_Open w (goModPath_of w p) = None \<Longrightarrow>
      io_ReadAll w (goModPath_of w p) = Inr b \<Longrightarrow>
      modfile_Parse w (packagePath_of w p) b = Inl e \<Longrightarrow>
      (\<And>fs. main w p v fs = \<lparr>outcome = Fatal,
        diagnostics = [''error getting module file: '' @ ''error parsing module file: ''
                         @ Error e],
        events = [EvOpen (goModPath_of w p), EvReadAll (goModPath_of w p)],
        files = fs\<rparr>) \<Longrightarrow> thesis"
    and "\<And>sv b mf. p \<noteq> [] \<Longrightarrow> v \<noteq> [] \<Longrightarrow>
      semver_Parse w (strings_TrimPrefix v ''v'') = Inr sv \<Longrightarrow>
      os_Open w (goModPath_of w p) = None \<Longrightarrow>
      io_ReadAll w (goModPath_of w p) = Inr b \<Longrightarrow>
      modfile_Parse w (packagePath_of w p) b = Inr mf \<Longrightarrow>
      Module mf = None \<Longrightarrow>
      (\<And>fs. main w p v fs = \<lparr>outcome = Fatal,
        diagnostics = [''error getting module file: ''
                         @ ''parsed module should not be nil''],
        events = [EvOpen (goModPath_of w p), EvReadAll (goModPath_of w p)],
        files = fs\<rparr>) \<Longrightarrow> thesis"
    and "\<And>sv b mf m e. p \<noteq> [] \<Longrightarrow> v \<noteq> [] \<Longrightarrow>
      semver_Parse w (strings_TrimPrefix v ''v'') = Inr sv \<Longrightarrow>
      os_Open w (goModPath_of w p) = None \<Longrightarrow>
      io_ReadAll w (goModPath_of w p) = Inr b \<Longrightarrow>
      modfile_Parse w (packagePath_of w p) b = Inr mf \<Longrightarrow>
      Module mf = Some m \<Longrightarrow>
      modzip_CreateFromDir w ((Mod m)\<lparr>Version := v\<rparr>) (packagePath_of w p) = Inl e \<Longrightarrow>
      (\<And>fs. main w p v fs = \<lparr>outcome = Fatal,
        diagnostics = [''error creating zip archive: '' @ ''create zip from dir: ''
                         @ Error e],
        events = [EvOpen (goModPath_of w p), EvReadAll (goModPath_of w p),
                  EvCreateFromDir ((Mod m)\<lparr>Version := v\<rparr>) (packagePath_of w p)],
        files = fs\<rparr>) \<Longrightarrow> thesis"
    and "\<And>sv b mf m zc e. p \<noteq> [] \<Longrightarrow> v \<noteq> [] \<Longrightarrow>
      semver_Parse w (strings_TrimPrefix v ''v'') = Inr sv \<Longrightarrow>
      os_Open w (goModPath_of w p) = None \<Longrightarrow>
      io_ReadAll w (goModPath_of w p) = Inr b \<Longrightarrow>
      modfile_Parse w (packagePath_of w p) b = Inr mf \<Longrightarrow>
      Module mf = Some m \<Longrightarrow>
      modzip_CreateFromDir w ((Mod m)\<lparr>Version := v\<rparr>) (packagePath_of w p) = Inr zc \<Longrightarrow>
      os_WriteFile w (zipFilePath_of w p sv v) zc mode_0o644 = WriteRefused e \<Longrightarrow>
      (\<And>fs. main w p v fs = \<lparr>outcome = Fatal,
        diagnostics = [''error creating zip archive: '' @ ''writing zip file: '' @ Error e],
        events = [EvOpen (goModPath_of w p), EvReadAll (goModPath_of w p),
                  EvCreateFromDir ((Mod m)\<lparr>Version := v\<rparr>) (packagePath_of w p),
                  EvWriteFile (zipFilePath_of w p sv v) zc mode_0o644],
        files = fs\<rparr>) \<Longrightarrow> thesis"
    and "\<And>sv b mf m zc part e. p \<noteq> [] \<Longrightarrow> v \<noteq> [] \<Longrightarrow>
      semver_Parse w (strings_TrimPrefix v ''v'') = Inr sv \<Longrightarrow>
      os_Open w (goModPath_of w p) = None \<Longrightarrow>
      io_ReadAll w (goModPath_of w p) = Inr b \<Longrightarrow>
      modfile_Parse w (packagePath_of w p) b = Inr mf \<Longrightarrow>
      Module mf = Some m \<Longrightarrow>
      modzip_CreateFromDir w ((Mod m)\<lparr>Version := v\<rparr>) (packagePath_of w p) = Inr zc \<Longrightarrow>
      os_WriteFile w (zipFilePath_of w p sv v) zc mode_0o644 = WriteBroken part e \<Longrightarrow>
      (\<And>fs. main w p v fs = \<lparr>outcome = Fatal,
        diagnostics = [''error creating zip archive: '' @ ''writing zip file: '' @ Error e],
        events = [EvOpen (goModPath_of w p), EvReadAll (goModPath_of w p),
                  EvCreateFromDir ((Mod m)\<lparr>Version := v\<rparr>) (packagePath_of w p),
                  EvWriteFile (zipFilePath_of w p sv v) zc mode_0o644],
        files = fs(zipFilePath_of w p sv v \<mapsto> part)\<rparr>) \<Longrightarrow> thesis"
    and "\<And>sv b mf m zc. p \<noteq> [] \<Longrightarrow> v \<noteq> [] \<Longrightarrow>
      semver_Parse w (strings_TrimPrefix v ''v'') = Inr sv \<Longrightarrow>
      os_Open w (goModPath_of w p) = None \<Longrightarrow>
      io_ReadAll w (goModPath_of w p) = Inr b \<Longrightarrow>
      modfile_Parse w (packagePath_of w p) b = Inr mf \<Longrightarrow>
      Module mf = Some m \<Longrightarrow>
      modzip_CreateFromDir w ((Mod m)\<lparr>Version := v\<rparr>) (packagePath_of w p) = Inr zc \<Longrightarrow>
      os_WriteFile w (zipFilePath_of w p sv v) zc mode_0o644 = WriteDone \<Longrightarrow>
      (\<And>fs. main w p v fs = \<lparr>outcome = Exit0, diagnostics = [],
        events = [EvOpen (goModPath_of w p), EvReadAll (goModPath_of w p),
                  EvCreateFromDir ((Mod m)\<lparr>Version := v\<rparr>) (packagePath_of w p),
                  EvWriteFile (zipFilePath_of w p sv v) zc mode_0o644],
        files = fs(zipFilePath_of w p sv v \<mapsto> zc)\<rparr>) \<Longrightarrow> thesis"
  shows thesis
proof (cases "p = []")
  case True
  then show ?thesis
    by (intro assms(1)) (simp_all add: main_def glog_Fatalf_def)
next
  case name: False
  show ?thesis
  proof (cases "v = []")
    case True
    with name show ?thesis
      by (intro assms(2)) (simp_all add: main_def glog_Fatalf_def)
  next
    case version: False
    show ?thesis
    proof (cases "semver_Parse w (strings_TrimPrefix v ''v'')")
      case (Inl e)
      with name version show ?thesis
        by (intro assms(3) [of e]) (simp_all add: main_def glog_Fatalf_def)
    next
      case (Inr sv)
      note parsed = main_parsed [OF name version Inr]
      show ?thesis
      proof (cases "os_Open w (goModPath_of w p)")
        case (Some e)
        show ?thesis
          by (rule assms(4) [OF name version Inr Some])
             (simp add: parsed getModuleFile_open_error [OF Some] glog_Fatalf_def)
      next
        case None
        show ?thesis
        proof (cases "io_ReadAll w (goModPath_of w p)")
          case (Inl e)
          show ?thesis
            by (rule assms(5) [OF name version Inr None Inl])
               (simp add: parsed getModuleFile_read_error [OF None Inl] glog_Fatalf_def)
        next
          case read: (Inr b)
          show ?thesis
          proof (cases "modfile_Parse w (packagePath_of w p) b")
            case (Inl e)
            show ?thesis
              by (rule assms(6) [OF name version Inr None read Inl])
                 (simp add: parsed getModuleFile_parse_error [OF None read Inl]
                    glog_Fatalf_def)
          next
            case descr: (Inr mf)
            show ?thesis
            proof (cases "Module mf")
              case nil: None
              show ?thesis
                by (rule assms(7) [OF name version Inr None read descr nil])
                   (simp add: parsed getModuleFile_nil_module [OF None read descr nil]
                      glog_Fatalf_def)
            next
              case decl: (Some m)
              note loaded = getModuleFile_ok [OF None read descr decl, of v]
              show ?thesis
              proof (cases "modzip_CreateFromDir w ((Mod m)\<lparr>Version := v\<rparr>)
                              (packagePath_of w p)")
                case (Inl e)
                show ?thesis
                  by (rule assms(8) [OF name version Inr None read descr decl Inl])
                     (simp add: parsed loaded createZipArchive_stamped Inl glog_Fatalf_def)
              next
                case built: (Inr zc)
                show ?thesis
                proof (cases "os_WriteFile w (zipFilePath_of w p sv v) zc mode_0o644")
                  case WriteDone
                  show ?thesis
                    by (rule assms(11) [OF name version Inr None read descr decl built
                          WriteDone])
                       (simp add: parsed loaded createZipArchive_stamped built WriteDone)
                next
                  case (WriteRefused e)
                  show ?thesis
                    by (rule assms(9) [OF name version Inr None read descr decl built
                          WriteRefused])
                       (simp add: parsed loaded createZipArchive_stamped built WriteRefused
                          glog_Fatalf_def)
                next
                  case (WriteBroken part e)
                  show ?thesis
                    by (rule assms(10) [OF name version Inr None read descr decl built
                          WriteBroken])
                       (simp add: parsed loaded createZipArchive_stamped built WriteBroken
                          glog_Fatalf_def)
                qed
              qed
            qed
          qed
        qed
      qed
    qed
  qed
qed

lemma main_never_panics: "outcome (main w p v fs) \<noteq> Panicked"
  by (cases w p v rule: main_cases) simp_all

lemma main_fatal_one_diagnostic:
  "outcome (main w p v fs) = Fatal \<Longrightarrow> length (diagnostics (main w p v fs)) = 1"
  by (cases w p v rule: main_cases) simp_all

lemma main_exit0_steps:
  assumes "outcome (main w p v fs) = Exit0"
  shows "p \<noteq> [] \<and> v \<noteq> []
     \<and> (\<exists>sv. semver_Parse w (strings_TrimPrefix v ''v'') = Inr sv
          \<and> os_Open w (goModPath_of w p) = None
          \<and> (\<exists>b. io_ReadAll w (goModPath_of w p) = Inr b
               \<and> (\<exists>mf. modfile_Parse w (packagePath_of w p) b = Inr mf
                    \<and> (\<exists>m. Module mf = Some m
                         \<and> (\<exists>zc. modzip_CreateFromDir w ((Mod m)\<lparr>Version := v\<rparr>)
                                     (packagePath_of w p) = Inr zc
                              \<and> os_WriteFile w (zipFilePath_of w p sv v) zc mode_0o644
                                  = WriteDone)))))"
  using assms by (cases w p v rule: main_cases) simp_all

subsection \<open>C2: where the major version goes in the output directory\<close>

text \<open>
  What lines 73 to 76 compute: the segment \<^verbatim>\<open>/v<major>\<close> is appended to a directory
  that already ends in \<^verbatim>\<open>/@v\<close>.
\<close>

lemma cacheDir_of_by_major:
  "(2 \<le> Major sv \<longrightarrow>
      cacheDir_of w packageName sv =
        GOPATH w @ ''/pkg/mod/cache/download/'' @ packageName @ ''/@v/v''
          @ itoa (unat (Major sv)))
   \<and> (Major sv < 2 \<longrightarrow>
      cacheDir_of w packageName sv =
        GOPATH w @ ''/pkg/mod/cache/download/'' @ packageName @ ''/@v'')"
  by (simp add: cacheDir_of_def Let_def not_le [symmetric])

lemma major2_GOPATH: "GOPATH major2_world = GOPATH demo_world"
  by (simp add: major2_world_def)

lemma major2_cacheDir:
  "cacheDir_of major2_world ''example.com/foo''
     \<lparr>Major = 2, Minor = 3, Patch = 1, Pre = [], Build = []\<rparr> =
   ''/go/pkg/mod/cache/download/example.com/foo/@v/v2''"
  "cacheDir_of major2_world ''example.com/foo/v2''
     \<lparr>Major = 2, Minor = 3, Patch = 1, Pre = [], Build = []\<rparr> =
   ''/go/pkg/mod/cache/download/example.com/foo/v2/@v/v2''"
  by (simp_all add: cacheDir_of_def major2_world_def demo_world_def itoa_digit digit_def)

lemma major2_run:
  "main major2_world ''example.com/foo'' ''v2.3.1'' no_files =
     \<lparr>outcome = Exit0, diagnostics = [],
      events = [EvOpen ''/go/src/example.com/foo/go.mod'',
                EvReadAll ''/go/src/example.com/foo/go.mod'',
                EvCreateFromDir \<lparr>Path = ''example.com/foo/v2'', Version = ''v2.3.1''\<rparr>
                  ''/go/src/example.com/foo'',
                EvWriteFile ''/go/pkg/mod/cache/download/example.com/foo/@v/v2/v2.3.1.zip''
                  [80, 75] 420],
      files = no_files(''/go/pkg/mod/cache/download/example.com/foo/@v/v2/v2.3.1.zip''
                \<mapsto> [80, 75])\<rparr>"
proof -
  note paths = same_GOPATH_paths [OF major2_GOPATH]
  have parsed: "semver_Parse major2_world (strings_TrimPrefix ''v2.3.1'' ''v'') =
      Inr \<lparr>Major = 2, Minor = 3, Patch = 1, Pre = [], Build = []\<rparr>"
    using demo_parse_v2 by (simp add: major2_world_def)
  have open_ok: "os_Open major2_world (goModPath_of major2_world ''example.com/foo'') = None"
    by (simp add: paths demo_goModPath) (simp add: major2_world_def demo_world_def)
  have read_ok: "io_ReadAll major2_world (goModPath_of major2_world ''example.com/foo'')
      = Inr [109, 111, 100]"
    by (simp add: major2_world_def demo_world_def)
  have parse_ok: "modfile_Parse major2_world
      (packagePath_of major2_world ''example.com/foo'') [109, 111, 100]
      = Inr \<lparr>Module = Some \<lparr>Mod = \<lparr>Path = ''example.com/foo/v2'', Version = []\<rparr>\<rparr>\<rparr>"
    by (simp add: major2_world_def)
  have module_ok: "Module \<lparr>Module = Some \<lparr>Mod = \<lparr>Path = ''example.com/foo/v2'',
        Version = []\<rparr>\<rparr>\<rparr>
      = Some \<lparr>Mod = \<lparr>Path = ''example.com/foo/v2'', Version = []\<rparr>\<rparr>"
    by simp
  have build_ok: "modzip_CreateFromDir major2_world
      ((Mod \<lparr>Mod = \<lparr>Path = ''example.com/foo/v2'', Version = []\<rparr>\<rparr>)
         \<lparr>Version := ''v2.3.1''\<rparr>)
      (packagePath_of major2_world ''example.com/foo'') = Inr [80, 75]"
    by (simp add: major2_world_def demo_world_def)
  have write_ok: "os_WriteFile major2_world
      (zipFilePath_of major2_world ''example.com/foo''
         \<lparr>Major = 2, Minor = 3, Patch = 1, Pre = [], Build = []\<rparr> ''v2.3.1'')
      [80, 75] mode_0o644 = WriteDone"
    by (simp add: major2_world_def demo_world_def)
  have src: "packagePath_of demo_world ''example.com/foo'' = ''/go/src/example.com/foo''"
    by (simp add: packagePath_of_def demo_world_def)
  show ?thesis
    using main_written [OF _ _ parsed open_ok read_ok parse_ok module_ok build_ok write_ok,
        of no_files]
    by (simp add: paths src demo_goModPath demo_zipFilePath_v2 mode_0o644_def)
qed

text \<open>
  C2. The claim places the segment \<^verbatim>\<open>/v<major>\<close> before \<^verbatim>\<open>@v\<close>: for
  \<^verbatim>\<open>example.com/foo\<close> at \<^verbatim>\<open>v2.3.1\<close> the output directory is to end in
  \<^verbatim>\<open>/foo/v2/@v\<close>, which is where the module cache keeps a module of major version 2
  and what the usage text of the program promises (a file \<^verbatim>\<open><pseudo-version>.zip\<close>
  directly below \<^verbatim>\<open>@v\<close>). The program does otherwise. For the checkout of
  \<^verbatim>\<open>example.com/foo/v2\<close> at \<^verbatim>\<open>/go/src/example.com/foo\<close> and the version
  \<^verbatim>\<open>v2.3.1\<close> the run succeeds and writes
  \<^verbatim>\<open>/go/pkg/mod/cache/download/example.com/foo/@v/v2/v2.3.1.zip\<close>: the output
  directory ends in \<^verbatim>\<open>/foo/@v/v2\<close>, not in \<^verbatim>\<open>/foo/v2/@v\<close>. With the package name
  \<^verbatim>\<open>example.com/foo/v2\<close> the directory is \<^verbatim>\<open>.../foo/v2/@v/v2\<close>: the archive is
  never directly below \<^verbatim>\<open>@v\<close>.
\<close>

theorem main_major2_directory:
  "main major2_world ''example.com/foo'' ''v2.3.1'' no_files =
     \<lparr>outcome = Exit0, diagnostics = [],
      events = [EvOpen ''/go/src/example.com/foo/go.mod'',
                EvReadAll ''/go/src/example.com/foo/go.mod'',
                EvCreateFromDir \<lparr>Path = ''example.com/foo/v2'', Version = ''v2.3.1''\<rparr>
                  ''/go/src/example.com/foo'',
                EvWriteFile ''/go/pkg/mod/cache/download/example.com/foo/@v/v2/v2.3.1.zip''
                  [80, 75] 420],
      files = no_files(''/go/pkg/mod/cache/download/example.com/foo/@v/v2/v2.3.1.zip''
                \<mapsto> [80, 75])\<rparr>
   \<and> cacheDir_of major2_world ''example.com/foo''
       \<lparr>Major = 2, Minor = 3, Patch = 1, Pre = [], Build = []\<rparr> =
     ''/go/pkg/mod/cache/download/example.com/foo/@v/v2''
   \<and> strings_HasSuffix
       (cacheDir_of major2_world ''example.com/foo''
          \<lparr>Major = 2, Minor = 3, Patch = 1, Pre = [], Build = []\<rparr>) ''/foo/@v/v2''
   \<and> \<not> strings_HasSuffix
       (cacheDir_of major2_world ''example.com/foo''
          \<lparr>Major = 2, Minor = 3, Patch = 1, Pre = [], Build = []\<rparr>) ''/foo/v2/@v''
   \<and> cacheDir_of major2_world ''example.com/foo/v2''
       \<lparr>Major = 2, Minor = 3, Patch = 1, Pre = [], Build = []\<rparr> =
     ''/go/pkg/mod/cache/download/example.com/foo/v2/@v/v2''"
  by (simp add: major2_run major2_cacheDir strings_HasSuffix_def)

subsection \<open>C3: the version of the returned descriptor\<close>

text \<open>
  C3. When the descriptor in \<open>sourceDir\<close> opens, reads and parses with a module
  declaration, \<^verbatim>\<open>getModuleFile\<close> returns a descriptor, and the version of its
  module is the argument \<open>v\<close>, whatever version the parsed descriptor held; the module
  path is kept.
\<close>

theorem getModuleFile_stamps_version:
  assumes "os_Open w (filepath_Join [sourceDir, ''go.mod'']) = None"
    and "io_ReadAll w (filepath_Join [sourceDir, ''go.mod'']) = Inr b"
    and "modfile_Parse w sourceDir b = Inr mf"
    and "Module mf = Some m"
  shows "\<exists>mf' m'. snd (getModuleFile w sourceDir v) = Inr mf'
           \<and> Module mf' = Some m'
           \<and> Version (Mod m') = v
           \<and> Path (Mod m') = Path (Mod m)"
  using assms by (simp add: getModuleFile_def Let_def)

text \<open>The example descriptor records no version; it is returned with \<^verbatim>\<open>v9.9.9\<close>.\<close>

theorem getModuleFile_stamps_version_witness:
  "Module demo_file = Some \<lparr>Mod = \<lparr>Path = ''example.com/foo'', Version = []\<rparr>\<rparr>
   \<and> (\<exists>mf' m'. snd (getModuleFile demo_world ''/go/src/example.com/foo'' ''v9.9.9'') = Inr mf'
           \<and> Module mf' = Some m'
           \<and> Version (Mod m') = ''v9.9.9''
           \<and> Path (Mod m') = ''example.com/foo'')"
proof -
  have joined: "filepath_Join [''/go/src/example.com/foo'', ''go.mod'']
      = ''/go/src/example.com/foo/go.mod''"
    by (simp add: filepath_Join_def filepath_Clean_def clean_step_def)
  have open_ok: "os_Open demo_world (filepath_Join [''/go/src/example.com/foo'', ''go.mod''])
      = None"
    by (simp add: joined) (simp add: demo_world_def)
  have read_ok: "io_ReadAll demo_world
      (filepath_Join [''/go/src/example.com/foo'', ''go.mod'']) = Inr [109, 111, 100]"
    by (simp add: demo_world_def)
  have parse_ok: "modfile_Parse demo_world ''/go/src/example.com/foo'' [109, 111, 100]
      = Inr demo_file"
    by (simp add: demo_world_def)
  have module_ok: "Module demo_file
      = Some \<lparr>Mod = \<lparr>Path = ''example.com/foo'', Version = []\<rparr>\<rparr>"
    by (simp add: demo_file_def)
  show ?thesis
    using getModuleFile_stamps_version [OF open_ok read_ok parse_ok module_ok, of "''v9.9.9''"]
      module_ok
    by simp
qed

subsection \<open>C4: failing runs\<close>

lemma failure_path_iff: "failure_path w p v \<longleftrightarrow> outcome (main w p v fs) \<noteq> Exit0"
  by (cases w p v rule: main_cases) (simp_all add: failure_path_def)

lemma full_disk_GOPATH: "GOPATH full_disk_world = GOPATH demo_world"
  by (simp add: full_disk_world_def)

lemma no_module_GOPATH: "GOPATH no_module_world = GOPATH demo_world"
  by (simp add: no_module_world_def)

lemma main_write_broken:
  assumes "p \<noteq> []" and "v \<noteq> []"
    and "semver_Parse w (strings_TrimPrefix v ''v'') = Inr sv"
    and "os_Open w (goModPath_of w p) = None"
    and "io_ReadAll w (goModPath_of w p) = Inr b"
    and "modfile_Parse w (packagePath_of w p) b = Inr mf"
    and "Module mf = Some m"
    and "modzip_CreateFromDir w ((Mod m)\<lparr>Version := v\<rparr>) (packagePath_of w p) = Inr zc"
    and "os_WriteFile w (zipFilePath_of w p sv v) zc mode_0o644 = WriteBroken part e"
  shows "main w p v fs =
           \<lparr>outcome = Fatal,
            diagnostics = [''error creating zip archive: '' @ ''writing zip file: ''
                             @ Error e],
            events = [EvOpen (goModPath_of w p), EvReadAll (goModPath_of w p),
                      EvCreateFromDir ((Mod m)\<lparr>Version := v\<rparr>) (packagePath_of w p),
                      EvWriteFile (zipFilePath_of w p sv v) zc mode_0o644],
            files = fs(zipFilePath_of w p sv v \<mapsto> part)\<rparr>"
  using assms
  by (simp add: main_parsed getModuleFile_ok createZipArchive_stamped glog_Fatalf_def)

lemma full_disk_run:
  "main full_disk_world ''example.com/foo'' ''v1.0.0'' no_files =
     \<lparr>outcome = Fatal,
      diagnostics =
        [''error creating zip archive: writing zip file: no space left on device''],
      events = [EvOpen ''/go/src/example.com/foo/go.mod'',
                EvReadAll ''/go/src/example.com/foo/go.mod'',
                EvCreateFromDir \<lparr>Path = ''example.com/foo'', Version = ''v1.0.0''\<rparr>
                  ''/go/src/example.com/foo'',
                EvWriteFile ''/go/pkg/mod/cache/download/example.com/foo/@v/v1.0.0.zip''
                  [80, 75] mode_0o644],
      files = no_files(''/go/pkg/mod/cache/download/example.com/foo/@v/v1.0.0.zip''
                \<mapsto> [])\<rparr>"
proof -
  note paths = same_GOPATH_paths [OF full_disk_GOPATH]
  have parsed: "semver_Parse full_disk_world (strings_TrimPrefix ''v1.0.0'' ''v'') =
      Inr \<lparr>Major = 1, Minor = 0, Patch = 0, Pre = [], Build = []\<rparr>"
    using demo_parse_v1 by (simp add: full_disk_world_def)
  have open_ok: "os_Open full_disk_world (goModPath_of full_disk_world ''example.com/foo'')
      = None"
    by (simp add: paths demo_goModPath) (simp add: full_disk_world_def demo_world_def)
  have read_ok: "io_ReadAll full_disk_world
      (goModPath_of full_disk_world ''example.com/foo'') = Inr [109, 111, 100]"
    by (simp add: full_disk_world_def demo_world_def)
  have parse_ok: "modfile_Parse full_disk_world
      (packagePath_of full_disk_world ''example.com/foo'') [109, 111, 100] = Inr demo_file"
    by (simp add: full_disk_world_def demo_world_def)
  have module_ok: "Module demo_file
      = Some \<lparr>Mod = \<lparr>Path = ''example.com/foo'', Version = []\<rparr>\<rparr>"
    by (simp add: demo_file_def)
  have src: "packagePath_of demo_world ''example.com/foo'' = ''/go/src/example.com/foo''"
    by (simp add: packagePath_of_def demo_world_def)
  have build_ok: "modzip_CreateFromDir full_disk_world
      ((Mod \<lparr>Mod = \<lparr>Path = ''example.com/foo'', Version = []\<rparr>\<rparr>)\<lparr>Version := ''v1.0.0''\<rparr>)
      (packagePath_of full_disk_world ''example.com/foo'') = Inr [80, 75]"
    by (simp add: full_disk_world_def demo_world_def)
  have write_broken: "os_WriteFile full_disk_world
      (zipFilePath_of full_disk_world ''example.com/foo''
         \<lparr>Major = 1, Minor = 0, Patch = 0, Pre = [], Build = []\<rparr> ''v1.0.0'')
      [80, 75] mode_0o644 = WriteBroken [] (New ''no space left on device'')"
    by (simp add: full_disk_world_def)
  show ?thesis
    using main_write_broken [OF _ _ parsed open_ok read_ok parse_ok module_ok build_ok
        write_broken, of no_files]
    by (simp add: paths src demo_goModPath demo_zipFilePath_v1)
qed

lemma full_disk_steps:
  "semver_Parse full_disk_world (strings_TrimPrefix ''v1.0.0'' ''v'') =
      Inr \<lparr>Major = 1, Minor = 0, Patch = 0, Pre = [], Build = []\<rparr>"
  "os_Open full_disk_world (goModPath_of full_disk_world ''example.com/foo'') = None"
  "io_ReadAll full_disk_world path = Inr [109, 111, 100]"
  "modfile_Parse full_disk_world name b = Inr demo_file"
  "modzip_CreateFromDir full_disk_world mv dir = Inr [80, 75]"
  "os_WriteFile full_disk_world path zc mode = WriteBroken [] (New ''no space left on device'')"
proof -
  show "semver_Parse full_disk_world (strings_TrimPrefix ''v1.0.0'' ''v'') =
      Inr \<lparr>Major = 1, Minor = 0, Patch = 0, Pre = [], Build = []\<rparr>"
    using demo_parse_v1 by (simp add: full_disk_world_def)
  show "os_Open full_disk_world (goModPath_of full_disk_world ''example.com/foo'') = None"
    by (simp add: same_GOPATH_paths [OF full_disk_GOPATH] demo_goModPath)
       (simp add: full_disk_world_def demo_world_def)
qed (simp_all add: full_disk_world_def demo_world_def)

lemma main_failed_before_write:
  assumes "fails_before_write w p v"
  shows "(\<forall>path zc mode. EvWriteFile path zc mode \<notin> set (events (main w p v fs)))
     \<and> files (main w p v fs) = fs"
  using assms by (cases w p v rule: main_cases) (simp_all add: fails_before_write_def)

lemma main_failed_write:
  assumes "failure_path w p v" and "\<not> fails_before_write w p v"
  shows "\<exists>sv (m::modfile_Module) zc.
       semver_Parse w (strings_TrimPrefix v ''v'') = Inr sv
     \<and> modzip_CreateFromDir w ((Mod m)\<lparr>Version := v\<rparr>) (packagePath_of w p) = Inr zc
     \<and> events (main w p v fs) =
         [EvOpen (goModPath_of w p), EvReadAll (goModPath_of w p),
          EvCreateFromDir ((Mod m)\<lparr>Version := v\<rparr>) (packagePath_of w p),
          EvWriteFile (zipFilePath_of w p sv v) zc mode_0o644]
     \<and> os_WriteFile w (zipFilePath_of w p sv v) zc mode_0o644 \<noteq> WriteDone
     \<and> (\<forall>e. os_WriteFile w (zipFilePath_of w p sv v) zc mode_0o644 = WriteRefused e
            \<longrightarrow> files (main w p v fs) = fs)
     \<and> (\<forall>part e. os_WriteFile w (zipFilePath_of w p sv v) zc mode_0o644
              = WriteBroken part e
            \<longrightarrow> files (main w p v fs) = fs(zipFilePath_of w p sv v \<mapsto> part))"
  using assms
proof (cases w p v rule: main_cases)
  case (write_refused sv b mf m zc e)
  then show ?thesis
    by (intro exI [of _ sv] exI [of _ m] exI [of _ zc]) simp
next
  case (write_broken sv b mf m zc part e)
  then show ?thesis
    by (intro exI [of _ sv] exI [of _ m] exI [of _ zc]) simp
qed (simp_all add: failure_path_def fails_before_write_def)

text \<open>
  C4, as amended. On every failure path the run ends fatally with exactly one
  diagnostic. On every failure path before the write (an empty flag, a version that
  does not parse, a descriptor that does not open, read or parse or declares no
  module, a failure of the archive builder) no write is attempted and the files are as
  they were. On a failure of the write, the write is the one file operation after the
  archive was built, and the program cleans nothing up: the files are as the write
  left them, unchanged when it was refused before the archive was created or
  truncated, and otherwise with the archive holding the bytes that reached it.
\<close>

theorem main_failure_paths:
  assumes "failure_path w p v"
  shows "outcome (main w p v fs) = Fatal
     \<and> length (diagnostics (main w p v fs)) = 1
     \<and> (fails_before_write w p v \<longrightarrow>
          (\<forall>path zc mode. EvWriteFile path zc mode \<notin> set (events (main w p v fs)))
          \<and> files (main w p v fs) = fs)
     \<and> (\<not> fails_before_write w p v \<longrightarrow>
          (\<exists>sv (m::modfile_Module) zc.
               semver_Parse w (strings_TrimPrefix v ''v'') = Inr sv
             \<and> modzip_CreateFromDir w ((Mod m)\<lparr>Version := v\<rparr>) (packagePath_of w p)
                 = Inr zc
             \<and> events (main w p v fs) =
                 [EvOpen (goModPath_of w p), EvReadAll (goModPath_of w p),
                  EvCreateFromDir ((Mod m)\<lparr>Version := v\<rparr>) (packagePath_of w p),
                  EvWriteFile (zipFilePath_of w p sv v) zc mode_0o644]
             \<and> os_WriteFile w (zipFilePath_of w p sv v) zc mode_0o644 \<noteq> WriteDone
             \<and> (\<forall>e. os_WriteFile w (zipFilePath_of w p sv v) zc mode_0o644
                      = WriteRefused e
                    \<longrightarrow> files (main w p v fs) = fs)
             \<and> (\<forall>part e. os_WriteFile w (zipFilePath_of w p sv v) zc mode_0o644
                      = WriteBroken part e
                    \<longrightarrow> files (main w p v fs) = fs(zipFilePath_of w p sv v \<mapsto> part))))"
proof -
  from assms have "outcome (main w p v fs) \<noteq> Exit0"
    by (simp add: failure_path_iff [of w p v fs])
  then have fatal: "outcome (main w p v fs) = Fatal"
    using main_never_panics [of w p v fs] by (cases "outcome (main w p v fs)") simp_all
  show ?thesis
    using fatal main_fatal_one_diagnostic [OF fatal]
      main_failed_before_write [of w p v fs] main_failed_write [OF assms, of fs]
    by blast
qed

text \<open>
  A full disk and a missing descriptor, in the example environment: the first leaves
  the empty archive behind, the second attempts no write.
\<close>

theorem main_failure_paths_witness:
  "failure_path full_disk_world ''example.com/foo'' ''v1.0.0''
   \<and> \<not> fails_before_write full_disk_world ''example.com/foo'' ''v1.0.0''
   \<and> outcome (main full_disk_world ''example.com/foo'' ''v1.0.0'' no_files) = Fatal
   \<and> files (main full_disk_world ''example.com/foo'' ''v1.0.0'' no_files) =
       no_files(''/go/pkg/mod/cache/download/example.com/foo/@v/v1.0.0.zip'' \<mapsto> [])
   \<and> failure_path demo_world ''example.com/bar'' ''v1.0.0''
   \<and> fails_before_write demo_world ''example.com/bar'' ''v1.0.0''
   \<and> outcome (main demo_world ''example.com/bar'' ''v1.0.0'' no_files) = Fatal
   \<and> length (diagnostics (main demo_world ''example.com/bar'' ''v1.0.0'' no_files)) = 1
   \<and> files (main demo_world ''example.com/bar'' ''v1.0.0'' no_files) = no_files"
proof -
  have full: "failure_path full_disk_world ''example.com/foo'' ''v1.0.0''"
    and at_write: "\<not> fails_before_write full_disk_world ''example.com/foo'' ''v1.0.0''"
    by (simp_all add: failure_path_def fails_before_write_def full_disk_steps demo_file_def)
  from main_failure_paths [OF full, of no_files] at_write
  obtain sv zc where
    fatal: "outcome (main full_disk_world ''example.com/foo'' ''v1.0.0'' no_files) = Fatal"
    and sv: "semver_Parse full_disk_world (strings_TrimPrefix ''v1.0.0'' ''v'') = Inr sv"
    and left: "\<forall>part e. os_WriteFile full_disk_world
          (zipFilePath_of full_disk_world ''example.com/foo'' sv ''v1.0.0'') zc mode_0o644
            = WriteBroken part e
        \<longrightarrow> files (main full_disk_world ''example.com/foo'' ''v1.0.0'' no_files)
            = no_files(zipFilePath_of full_disk_world ''example.com/foo'' sv ''v1.0.0''
                \<mapsto> part)"
    by blast
  from sv have sv_eq: "sv = \<lparr>Major = 1, Minor = 0, Patch = 0, Pre = [], Build = []\<rparr>"
    by (simp add: full_disk_steps)
  from left have files_full:
    "files (main full_disk_world ''example.com/foo'' ''v1.0.0'' no_files) =
       no_files(''/go/pkg/mod/cache/download/example.com/foo/@v/v1.0.0.zip'' \<mapsto> [])"
    by (simp add: full_disk_steps sv_eq same_GOPATH_paths [OF full_disk_GOPATH]
        demo_zipFilePath_v1)
  have open_fails: "os_Open demo_world (goModPath_of demo_world ''example.com/bar'')
      = Some (New ''no such file or directory'')"
    by (simp add: demo_goModPath_bar) (simp add: demo_world_def)
  have missing: "failure_path demo_world ''example.com/bar'' ''v1.0.0''"
    and early: "fails_before_write demo_world ''example.com/bar'' ''v1.0.0''"
    by (simp_all add: failure_path_def fails_before_write_def demo_parse_v1 open_fails)
  show ?thesis
    using main_failure_paths [OF missing, of no_files] full at_write fatal files_full
      missing early
    by simp
qed

text \<open>
  C4 as stated says that no failing run creates the archive. On a full disk the
  write fails after the archive was created: the run is fatal, and the archive,
  absent before, exists and is empty.
\<close>

theorem main_write_failure_counterexample:
  "outcome (main full_disk_world ''example.com/foo'' ''v1.0.0'' no_files) = Fatal
   \<and> no_files ''/go/pkg/mod/cache/download/example.com/foo/@v/v1.0.0.zip'' = None
   \<and> files (main full_disk_world ''example.com/foo'' ''v1.0.0'' no_files)
       ''/go/pkg/mod/cache/download/example.com/foo/@v/v1.0.0.zip'' = Some []"
  by (simp add: full_disk_run) (simp add: no_files_def)

subsection \<open>C5: a version that does not parse\<close>

text \<open>
  C5. When the pseudo-version, stripped of one leading \<^verbatim>\<open>v\<close>, does not parse, the
  run ends fatally with one diagnostic, performs no file operation and changes no
  file; with both flags non-empty the diagnostic is the parse error.
\<close>

theorem main_bad_version:
  assumes "semver_Parse w (strings_TrimPrefix v ''v'') = Inl e"
  shows "outcome (main w p v fs) = Fatal
     \<and> length (diagnostics (main w p v fs)) = 1
     \<and> events (main w p v fs) = []
     \<and> files (main w p v fs) = fs
     \<and> (p \<noteq> [] \<and> v \<noteq> [] \<longrightarrow>
          diagnostics (main w p v fs) = [''error parsing pseudo-version: '' @ Error e])"
  using assms by (cases w p v rule: main_cases) simp_all

text \<open>The version \<^verbatim>\<open>x1.0.0\<close>, in the example environment.\<close>

theorem main_bad_version_witness:
  "semver_Parse demo_world (strings_TrimPrefix ''x1.0.0'' ''v'')
     = Inl (New ''Invalid character(s) found in major number'')
   \<and> main demo_world ''example.com/foo'' ''x1.0.0'' no_files =
       \<lparr>outcome = Fatal,
        diagnostics =
          [''error parsing pseudo-version: Invalid character(s) found in major number''],
        events = [], files = no_files\<rparr>"
proof -
  have bad: "semver_Parse demo_world (strings_TrimPrefix ''x1.0.0'' ''v'')
      = Inl (New ''Invalid character(s) found in major number'')"
    by (simp add: demo_world_def demo_semver_def strings_TrimPrefix_def)
  have "main demo_world ''example.com/foo'' ''x1.0.0'' no_files =
      \<lparr>outcome = outcome (main demo_world ''example.com/foo'' ''x1.0.0'' no_files),
       diagnostics = diagnostics (main demo_world ''example.com/foo'' ''x1.0.0'' no_files),
       events = events (main demo_world ''example.com/foo'' ''x1.0.0'' no_files),
       files = files (main demo_world ''example.com/foo'' ''x1.0.0'' no_files)\<rparr>"
    by simp
  then show ?thesis
    using main_bad_version [OF bad, of "''example.com/foo''" no_files] bad by simp
qed

subsection \<open>C6: an empty flag\<close>

text \<open>
  C6. When the package name or the pseudo-version is empty, the run ends fatally
  with the diagnostic of the first empty flag, and no file is opened, read or
  written: the run has no file operation and the files are unchanged.
\<close>

theorem main_empty_flag:
  assumes "p = [] \<or> v = []"
  shows "outcome (main w p v fs) = Fatal
     \<and> diagnostics (main w p v fs) =
         [if p = [] then ''package-name cannot be empty''
          else ''pseudo-version cannot be empty'']
     \<and> events (main w p v fs) = []
     \<and> files (main w p v fs) = fs"
  using assms by (cases w p v rule: main_cases) simp_all

text \<open>Each flag empty in turn, in the example environment.\<close>

theorem main_empty_flag_witness:
  "events (main demo_world [] ''v1.0.0'' no_files) = []
   \<and> outcome (main demo_world [] ''v1.0.0'' no_files) = Fatal
   \<and> diagnostics (main demo_world [] ''v1.0.0'' no_files) = [''package-name cannot be empty'']
   \<and> events (main demo_world ''example.com/foo'' [] no_files) = []
   \<and> outcome (main demo_world ''example.com/foo'' [] no_files) = Fatal
   \<and> diagnostics (main demo_world ''example.com/foo'' [] no_files)
       = [''pseudo-version cannot be empty'']"
  using main_empty_flag [of "[]" "''v1.0.0''" demo_world no_files]
    main_empty_flag [of "''example.com/foo''" "[]" demo_world no_files]
  by simp

subsection \<open>Successful runs in the example environment\<close>

lemma demo_run:
  assumes "v \<noteq> []"
    and "semver_Parse demo_world (strings_TrimPrefix v ''v'') = Inr sv"
  shows "main demo_world ''example.com/foo'' v fs =
           \<lparr>outcome = Exit0, diagnostics = [],
            events = [EvOpen ''/go/src/example.com/foo/go.mod'',
                      EvReadAll ''/go/src/example.com/foo/go.mod'',
                      EvCreateFromDir \<lparr>Path = ''example.com/foo'', Version = v\<rparr>
                        ''/go/src/example.com/foo'',
                      EvWriteFile (zipFilePath_of demo_world ''example.com/foo'' sv v)
                        [80, 75] 420],
            files = fs(zipFilePath_of demo_world ''example.com/foo'' sv v \<mapsto> [80, 75])\<rparr>"
proof -
  have open_ok: "os_Open demo_world (goModPath_of demo_world ''example.com/foo'') = None"
    by (simp add: demo_goModPath) (simp add: demo_world_def)
  have read_ok: "io_ReadAll demo_world (goModPath_of demo_world ''example.com/foo'')
      = Inr [109, 111, 100]"
    by (simp add: demo_world_def)
  have parse_ok: "modfile_Parse demo_world (packagePath_of demo_world ''example.com/foo'')
      [109, 111, 100] = Inr demo_file"
    by (simp add: demo_world_def)
  have module_ok: "Module demo_file
      = Some \<lparr>Mod = \<lparr>Path = ''example.com/foo'', Version = []\<rparr>\<rparr>"
    by (simp add: demo_file_def)
  have build_ok: "modzip_CreateFromDir demo_world
      ((Mod \<lparr>Mod = \<lparr>Path = ''example.com/foo'', Version = []\<rparr>\<rparr>)\<lparr>Version := v\<rparr>)
      (packagePath_of demo_world ''example.com/foo'') = Inr [80, 75]"
    by (simp add: demo_world_def)
  have write_ok: "os_WriteFile demo_world (zipFilePath_of demo_world ''example.com/foo'' sv v)
      [80, 75] mode_0o644 = WriteDone"
    by (simp add: demo_world_def)
  have src: "packagePath_of demo_world ''example.com/foo'' = ''/go/src/example.com/foo''"
    by (simp add: packagePath_of_def demo_world_def)
  show ?thesis
    using main_written [OF _ assms open_ok read_ok parse_ok module_ok build_ok write_ok,
        of fs]
    by (simp add: demo_goModPath src mode_0o644_def)
qed

lemmas demo_run_v1 = demo_run [OF _ demo_parse_v1, simplified demo_zipFilePath_v1, simplified]

lemma main_exit0_events:
  assumes "outcome (main w p v fs) = Exit0"
  shows "\<exists>sv (m::modfile_Module) zc. semver_Parse w (strings_TrimPrefix v ''v'') = Inr sv
     \<and> modzip_CreateFromDir w ((Mod m)\<lparr>Version := v\<rparr>) (packagePath_of w p) = Inr zc
     \<and> events (main w p v fs) =
         [EvOpen (goModPath_of w p), EvReadAll (goModPath_of w p),
          EvCreateFromDir ((Mod m)\<lparr>Version := v\<rparr>) (packagePath_of w p),
          EvWriteFile (filepath_Join [cacheDir_of w p sv, v @ ''.zip'']) zc mode_0o644]
     \<and> files (main w p v fs) = fs(filepath_Join [cacheDir_of w p sv, v @ ''.zip''] \<mapsto> zc)"
  using assms
proof (cases w p v rule: main_cases)
  case (written sv b mf m zc)
  then show ?thesis
    by (intro exI [of _ sv] exI [of _ m] exI [of _ zc]) (simp add: zipFilePath_of_def)
qed simp_all

subsection \<open>C7: a descriptor that cannot be opened or read\<close>

text \<open>
  C7. With valid flags, when opening \<^verbatim>\<open><sourceDir>/go.mod\<close> fails, or reading it
  fails, \<^verbatim>\<open>getModuleFile\<close> returns an error that wraps the I/O error and whose
  message is \<^verbatim>\<open>error opening\<close> (or \<^verbatim>\<open>error reading\<close>), that exact path, a colon
  and the text of the I/O error; the run is fatal with that message as its
  diagnostic, attempts no write and changes no file. The path is the cleaned form of
  \<^verbatim>\<open><GOPATH>/src/<package-name>/go.mod\<close>.
\<close>

theorem main_descriptor_unreadable:
  assumes "p \<noteq> []" and "v \<noteq> []"
    and "semver_Parse w (strings_TrimPrefix v ''v'') = Inr sv"
    and "os_Open w (goModPath_of w p) = Some e
         \<or> (os_Open w (goModPath_of w p) = None \<and> io_ReadAll w (goModPath_of w p) = Inl e)"
  shows "(\<exists>err step.
            snd (getModuleFile w (packagePath_of w p) v) = Inl err
          \<and> Unwrap err = Some e
          \<and> Error err = step @ goModPath_of w p @ '': '' @ Error e
          \<and> (step = ''error opening '' \<or> step = ''error reading '')
          \<and> diagnostics (main w p v fs) = [''error getting module file: '' @ Error err])
     \<and> outcome (main w p v fs) = Fatal
     \<and> files (main w p v fs) = fs
     \<and> (\<forall>path zc mode. EvWriteFile path zc mode \<notin> set (events (main w p v fs)))
     \<and> goModPath_of w p = filepath_Clean (GOPATH w @ ''/src/'' @ p @ ''/go.mod'')"
proof -
  from assms(4) show ?thesis
  proof
    assume failed: "os_Open w (goModPath_of w p) = Some e"
    show ?thesis
      using getModuleFile_open_error [OF failed, of v]
      by (simp add: main_parsed [OF assms(1-3)] glog_Fatalf_def goModPath_of_eq)
  next
    assume "os_Open w (goModPath_of w p) = None \<and> io_ReadAll w (goModPath_of w p) = Inl e"
    then have opened: "os_Open w (goModPath_of w p) = None"
      and failed: "io_ReadAll w (goModPath_of w p) = Inl e"
      by simp_all
    show ?thesis
      using getModuleFile_read_error [OF opened failed, of v]
      by (simp add: main_parsed [OF assms(1-3)] glog_Fatalf_def goModPath_of_eq)
  qed
qed

text \<open>The package \<^verbatim>\<open>example.com/bar\<close>, which the example workspace does not hold.\<close>

theorem main_descriptor_unreadable_witness:
  "os_Open demo_world ''/go/src/example.com/bar/go.mod''
     = Some (New ''no such file or directory'')
   \<and> goModPath_of demo_world ''example.com/bar'' = ''/go/src/example.com/bar/go.mod''
   \<and> outcome (main demo_world ''example.com/bar'' ''v1.0.0'' no_files) = Fatal
   \<and> files (main demo_world ''example.com/bar'' ''v1.0.0'' no_files) = no_files
   \<and> (\<exists>err. snd (getModuleFile demo_world
                   (packagePath_of demo_world ''example.com/bar'') ''v1.0.0'') = Inl err
          \<and> Unwrap err = Some (New ''no such file or directory'')
          \<and> diagnostics (main demo_world ''example.com/bar'' ''v1.0.0'' no_files)
              = [''error getting module file: '' @ Error err])"
proof -
  have missing: "os_Open demo_world ''/go/src/example.com/bar/go.mod''
      = Some (New ''no such file or directory'')"
    by (simp add: demo_world_def)
  then have failed: "os_Open demo_world (goModPath_of demo_world ''example.com/bar'')
        = Some (New ''no such file or directory'')
      \<or> (os_Open demo_world (goModPath_of demo_world ''example.com/bar'') = None
         \<and> io_ReadAll demo_world (goModPath_of demo_world ''example.com/bar'')
             = Inl (New ''no such file or directory''))"
    by (simp add: demo_goModPath_bar)
  show ?thesis
    using main_descriptor_unreadable [OF _ _ demo_parse_v1 failed, of no_files] missing
    by (simp add: demo_goModPath_bar) blast
qed

subsection \<open>C8: a descriptor without a module declaration\<close>

text \<open>
  C8. With valid flags, when the descriptor parses and its \<^verbatim>\<open>Module\<close> is nil,
  \<^verbatim>\<open>getModuleFile\<close> returns the error \<^verbatim>\<open>parsed module should not be nil\<close>, and the
  run is fatal with that text in its one diagnostic, performs only the open and the
  read, and changes no file.
\<close>

theorem main_nil_module:
  assumes "p \<noteq> []" and "v \<noteq> []"
    and "semver_Parse w (strings_TrimPrefix v ''v'') = Inr sv"
    and "os_Open w (goModPath_of w p) = None"
    and "io_ReadAll w (goModPath_of w p) = Inr b"
    and "modfile_Parse w (packagePath_of w p) b = Inr mf"
    and "Module mf = None"
  shows "snd (getModuleFile w (packagePath_of w p) v)
           = Inl (New ''parsed module should not be nil'')
     \<and> main w p v fs =
         \<lparr>outcome = Fatal,
          diagnostics = [''error getting module file: parsed module should not be nil''],
          events = [EvOpen (goModPath_of w p), EvReadAll (goModPath_of w p)],
          files = fs\<rparr>"
  using getModuleFile_nil_module [OF assms(4-7), of v]
  by (simp add: main_parsed [OF assms(1-3)] glog_Fatalf_def)

text \<open>The example workspace with a descriptor that declares no module.\<close>

theorem main_nil_module_witness:
  "modfile_Parse no_module_world ''/go/src/example.com/foo'' [109, 111, 100]
     = Inr \<lparr>Module = None\<rparr>
   \<and> snd (getModuleFile no_module_world
           (packagePath_of no_module_world ''example.com/foo'') ''v1.0.0'')
       = Inl (New ''parsed module should not be nil'')
   \<and> main no_module_world ''example.com/foo'' ''v1.0.0'' no_files =
       \<lparr>outcome = Fatal,
        diagnostics = [''error getting module file: parsed module should not be nil''],
        events = [EvOpen ''/go/src/example.com/foo/go.mod'',
                  EvReadAll ''/go/src/example.com/foo/go.mod''],
        files = no_files\<rparr>"
proof -
  note paths = same_GOPATH_paths [OF no_module_GOPATH]
  have parsed: "semver_Parse no_module_world (strings_TrimPrefix ''v1.0.0'' ''v'') =
      Inr \<lparr>Major = 1, Minor = 0, Patch = 0, Pre = [], Build = []\<rparr>"
    using demo_parse_v1 by (simp add: no_module_world_def)
  have open_ok: "os_Open no_module_world (goModPath_of no_module_world ''example.com/foo'')
      = None"
    by (simp add: paths demo_goModPath) (simp add: no_module_world_def demo_world_def)
  have read_ok: "io_ReadAll no_module_world
      (goModPath_of no_module_world ''example.com/foo'') = Inr [109, 111, 100]"
    by (simp add: no_module_world_def demo_world_def)
  have nil: "\<And>name. modfile_Parse no_module_world name [109, 111, 100]
      = Inr \<lparr>Module = None\<rparr>"
    by (simp add: no_module_world_def)
  have absent: "Module \<lparr>Module = None\<rparr> = None"
    by simp
  show ?thesis
    using main_nil_module [OF _ _ parsed open_ok read_ok nil absent, of no_files] nil
    by (simp add: paths demo_goModPath)
qed

subsection \<open>C9: running twice\<close>







subsection \<open>C10: the raw pseudo-version and the parsed one\<close>

lemma strings_TrimPrefix_v:
  "strings_TrimPrefix (CHR ''v'' # s) ''v'' = s"
  by (simp add: strings_TrimPrefix_def)

lemma strings_TrimPrefix_other:
  "\<forall>t. s \<noteq> CHR ''v'' # t \<Longrightarrow> strings_TrimPrefix s ''v'' = s"
  by (cases s) (simp_all add: strings_TrimPrefix_def)

lemma parser_field_only:
  "getModuleFile (w\<lparr>semver_Parse := f\<rparr>) = getModuleFile w"
  "createZipArchive (w\<lparr>semver_Parse := f\<rparr>) = createZipArchive w"
  "packagePath_of (w\<lparr>semver_Parse := f\<rparr>) = packagePath_of w"
  by (simp_all add: fun_eq_iff getModuleFile_def createZipArchive_def packagePath_of_def
      Let_def cong: option.case_cong sum.case_cong write_result.case_cong)

lemma cacheDir_of_major:
  "Major sv' = Major sv \<Longrightarrow>
     cacheDir_of (w\<lparr>semver_Parse := f\<rparr>) p sv' = cacheDir_of w p sv"
  by (auto simp add: cacheDir_of_def Let_def)

lemma main_parser_major_only:
  assumes "map_sum id Major (f (strings_TrimPrefix v ''v''))
         = map_sum id Major (semver_Parse w (strings_TrimPrefix v ''v''))"
  shows "main (w\<lparr>semver_Parse := f\<rparr>) p v fs = main w p v fs"
proof (cases "semver_Parse w (strings_TrimPrefix v ''v'')")
  case (Inl e)
  with assms have "f (strings_TrimPrefix v ''v'') = Inl e"
    by (cases "f (strings_TrimPrefix v ''v'')") simp_all
  with Inl show ?thesis
    by (simp add: main_def)
next
  case (Inr sv)
  with assms obtain sv' where sv': "f (strings_TrimPrefix v ''v'') = Inr sv'"
      and major: "Major sv' = Major sv"
    by (cases "f (strings_TrimPrefix v ''v'')") simp_all
  show ?thesis
    by (simp add: main_def Inr sv' parser_field_only cacheDir_of_major [OF major])
qed

lemma canonical_GOPATH: "GOPATH canonical_world = GOPATH demo_world"
  by (simp add: canonical_world_def)

lemma canonical_steps:
  "semver_Parse canonical_world (strings_TrimPrefix ''1.0.0'' ''v'') =
      Inr \<lparr>Major = 1, Minor = 0, Patch = 0, Pre = [], Build = []\<rparr>"
  "os_Open canonical_world (goModPath_of canonical_world ''example.com/foo'') = None"
  "io_ReadAll canonical_world (goModPath_of canonical_world ''example.com/foo'')
     = Inr [109, 111, 100]"
  "modfile_Parse canonical_world (packagePath_of canonical_world ''example.com/foo'')
     [109, 111, 100] = Inr demo_file"
  "Module demo_file = Some \<lparr>Mod = \<lparr>Path = ''example.com/foo'', Version = []\<rparr>\<rparr>"
  "modzip_CreateFromDir canonical_world
     ((Mod \<lparr>Mod = \<lparr>Path = ''example.com/foo'', Version = []\<rparr>\<rparr>)\<lparr>Version := ''1.0.0''\<rparr>)
     (packagePath_of canonical_world ''example.com/foo'')
     = Inl (New ''version is not canonical'')"
proof -
  show "semver_Parse canonical_world (strings_TrimPrefix ''1.0.0'' ''v'') =
      Inr \<lparr>Major = 1, Minor = 0, Patch = 0, Pre = [], Build = []\<rparr>"
    using demo_parse_bare by (simp add: canonical_world_def)
  show "os_Open canonical_world (goModPath_of canonical_world ''example.com/foo'') = None"
    by (simp add: same_GOPATH_paths [OF canonical_GOPATH] demo_goModPath)
       (simp add: canonical_world_def demo_world_def)
qed (simp_all add: canonical_world_def demo_world_def demo_file_def)

lemma canonical_run:
  "main canonical_world ''example.com/foo'' ''1.0.0'' no_files =
     \<lparr>outcome = Fatal,
      diagnostics =
        [''error creating zip archive: create zip from dir: version is not canonical''],
      events = [EvOpen ''/go/src/example.com/foo/go.mod'',
                EvReadAll ''/go/src/example.com/foo/go.mod'',
                EvCreateFromDir \<lparr>Path = ''example.com/foo'', Version = ''1.0.0''\<rparr>
                  ''/go/src/example.com/foo''],
      files = no_files\<rparr>"
proof -
  have src: "packagePath_of demo_world ''example.com/foo'' = ''/go/src/example.com/foo''"
    by (simp add: packagePath_of_def demo_world_def)
  show ?thesis
    using main_builder_refuses [OF _ _ canonical_steps, of no_files]
    by (simp add: same_GOPATH_paths [OF canonical_GOPATH] src demo_goModPath)
qed

text \<open>
  C10, as amended. A successful run hands the archive builder the module with the raw
  pseudo-version as its version, and writes \<^verbatim>\<open><raw pseudo-version>.zip\<close> in the
  output directory. The parser is called on the pseudo-version stripped of one leading
  lowercase \<^verbatim>\<open>v\<close>, and of its answer only the error and the major number matter:
  a parser that agrees on these gives the same run. Stripping removes exactly one
  \<^verbatim>\<open>v\<close> at the front and leaves every string that does not start with \<^verbatim>\<open>v\<close> as it
  is. So a pseudo-version without the leading \<^verbatim>\<open>v\<close> passes the version check of the
  program and reaches the archive builder as it was given; whether an archive is then
  written is the builder's decision: when it refuses the raw version the run is fatal
  after the builder was called, and no file is written.
\<close>

theorem raw_version_used:
  "(outcome (main w p v fs) = Exit0 \<longrightarrow>
      (\<exists>sv (m::modfile_Module) zc. semver_Parse w (strings_TrimPrefix v ''v'') = Inr sv
         \<and> modzip_CreateFromDir w ((Mod m)\<lparr>Version := v\<rparr>) (packagePath_of w p) = Inr zc
         \<and> events (main w p v fs) =
             [EvOpen (goModPath_of w p), EvReadAll (goModPath_of w p),
              EvCreateFromDir ((Mod m)\<lparr>Version := v\<rparr>) (packagePath_of w p),
              EvWriteFile (filepath_Join [cacheDir_of w p sv, v @ ''.zip'']) zc mode_0o644]
         \<and> files (main w p v fs)
             = fs(filepath_Join [cacheDir_of w p sv, v @ ''.zip''] \<mapsto> zc)))
   \<and> (map_sum id Major (f (strings_TrimPrefix v ''v''))
        = map_sum id Major (semver_Parse w (strings_TrimPrefix v ''v'')) \<longrightarrow>
      main (w\<lparr>semver_Parse := f\<rparr>) p v fs = main w p v fs)
   \<and> strings_TrimPrefix (CHR ''v'' # s) ''v'' = s
   \<and> ((\<forall>t. s \<noteq> CHR ''v'' # t) \<longrightarrow> strings_TrimPrefix s ''v'' = s)
   \<and> (p \<noteq> [] \<and> v \<noteq> []
        \<and> semver_Parse w (strings_TrimPrefix v ''v'') = Inr sv
        \<and> os_Open w (goModPath_of w p) = None
        \<and> io_ReadAll w (goModPath_of w p) = Inr b
        \<and> modfile_Parse w (packagePath_of w p) b = Inr mf
        \<and> Module mf = Some m
        \<and> modzip_CreateFromDir w ((Mod m)\<lparr>Version := v\<rparr>) (packagePath_of w p) = Inl e
      \<longrightarrow>
      main w p v fs =
        \<lparr>outcome = Fatal,
         diagnostics = [''error creating zip archive: '' @ ''create zip from dir: ''
                          @ Error e],
         events = [EvOpen (goModPath_of w p), EvReadAll (goModPath_of w p),
                   EvCreateFromDir ((Mod m)\<lparr>Version := v\<rparr>) (packagePath_of w p)],
         files = fs\<rparr>)"
  using main_exit0_events [of w p v fs] main_parser_major_only [of f v w p fs]
    strings_TrimPrefix_v [of s] strings_TrimPrefix_other [of s]
    main_builder_refuses [of p v w sv b mf m e fs]
  by blast

text \<open>
  The pseudo-version \<^verbatim>\<open>v1.0.0\<close> in the example environment: the archive is
  \<^verbatim>\<open>v1.0.0.zip\<close>, and a parser that answers 1.7.9-rc gives the same run. The
  pseudo-version \<^verbatim>\<open>1.0.0\<close> with a builder that wants the leading \<^verbatim>\<open>v\<close>: the raw
  string reaches the builder, and the run is fatal.
\<close>

theorem raw_version_used_witness:
  "strings_TrimPrefix ''1.0.0'' ''v'' = ''1.0.0''
   \<and> strings_TrimPrefix ''v1.0.0'' ''v'' = ''1.0.0''
   \<and> strings_TrimPrefix ''vv1.0.0'' ''v'' = ''v1.0.0''
   \<and> strings_TrimPrefix ''V1.0.0'' ''v'' = ''V1.0.0''
   \<and> main demo_world ''example.com/foo'' ''v1.0.0'' no_files =
       \<lparr>outcome = Exit0, diagnostics = [],
        events = [EvOpen ''/go/src/example.com/foo/go.mod'',
                  EvReadAll ''/go/src/example.com/foo/go.mod'',
                  EvCreateFromDir \<lparr>Path = ''example.com/foo'', Version = ''v1.0.0''\<rparr>
                    ''/go/src/example.com/foo'',
                  EvWriteFile ''/go/pkg/mod/cache/download/example.com/foo/@v/v1.0.0.zip''
                    [80, 75] 420],
        files = no_files(''/go/pkg/mod/cache/download/example.com/foo/@v/v1.0.0.zip''
                  \<mapsto> [80, 75])\<rparr>
   \<and> main (demo_world\<lparr>semver_Parse := other_semver\<rparr>) ''example.com/foo'' ''v1.0.0''
         no_files
       = main demo_world ''example.com/foo'' ''v1.0.0'' no_files
   \<and> outcome (main canonical_world ''example.com/foo'' ''1.0.0'' no_files) = Fatal
   \<and> files (main canonical_world ''example.com/foo'' ''1.0.0'' no_files) = no_files"
proof -
  have same_major: "map_sum id Major (other_semver (strings_TrimPrefix ''v1.0.0'' ''v''))
      = map_sum id Major (semver_Parse demo_world (strings_TrimPrefix ''v1.0.0'' ''v''))"
    by (simp add: other_semver_def demo_parse_v1)
  have strip: "strings_TrimPrefix ''1.0.0'' ''v'' = ''1.0.0''"
      "strings_TrimPrefix ''v1.0.0'' ''v'' = ''1.0.0''"
      "strings_TrimPrefix ''vv1.0.0'' ''v'' = ''v1.0.0''"
      "strings_TrimPrefix ''V1.0.0'' ''v'' = ''V1.0.0''"
    by (simp_all add: strings_TrimPrefix_def)
  have run: "main demo_world ''example.com/foo'' ''v1.0.0'' no_files =
       \<lparr>outcome = Exit0, diagnostics = [],
        events = [EvOpen ''/go/src/example.com/foo/go.mod'',
                  EvReadAll ''/go/src/example.com/foo/go.mod'',
                  EvCreateFromDir \<lparr>Path = ''example.com/foo'', Version = ''v1.0.0''\<rparr>
                    ''/go/src/example.com/foo'',
                  EvWriteFile ''/go/pkg/mod/cache/download/example.com/foo/@v/v1.0.0.zip''
                    [80, 75] 420],
        files = no_files(''/go/pkg/mod/cache/download/example.com/foo/@v/v1.0.0.zip''
                  \<mapsto> [80, 75])\<rparr>"
    by (rule demo_run_v1)
  have same_run: "main (demo_world\<lparr>semver_Parse := other_semver\<rparr>) ''example.com/foo''
         ''v1.0.0'' no_files
       = main demo_world ''example.com/foo'' ''v1.0.0'' no_files"
    using raw_version_used [where w = demo_world and p = "''example.com/foo''"
        and v = "''v1.0.0''" and fs = no_files and f = other_semver] same_major
    by blast
  have refused: "main canonical_world ''example.com/foo'' ''1.0.0'' no_files =
        \<lparr>outcome = Fatal,
         diagnostics = [''error creating zip archive: '' @ ''create zip from dir: ''
                          @ Error (New ''version is not canonical'')],
         events = [EvOpen (goModPath_of canonical_world ''example.com/foo''),
                   EvReadAll (goModPath_of canonical_world ''example.com/foo''),
                   EvCreateFromDir
                     ((Mod \<lparr>Mod = \<lparr>Path = ''example.com/foo'', Version = []\<rparr>\<rparr>)
                        \<lparr>Version := ''1.0.0''\<rparr>)
                     (packagePath_of canonical_world ''example.com/foo'')],
         files = no_files\<rparr>"
    using raw_version_used [where w = canonical_world and p = "''example.com/foo''"
        and v = "''1.0.0''" and fs = no_files
        and sv = "\<lparr>Major = 1, Minor = 0, Patch = 0, Pre = [], Build = []\<rparr>"
        and b = "[109, 111, 100]" and mf = demo_file
        and m = "\<lparr>Mod = \<lparr>Path = ''example.com/foo'', Version = []\<rparr>\<rparr>"
        and e = "New ''version is not canonical''"]
      canonical_steps
    by simp
  show ?thesis
    using strip run same_run refused by simp
qed

text \<open>
  C10 as stated says that the pseudo-version \<^verbatim>\<open>1.0.0\<close> is accepted and yields
  \<^verbatim>\<open>1.0.0.zip\<close>. The parser accepts the stripped string, but the builder is handed
  the raw \<^verbatim>\<open>1.0.0\<close>; where it wants the leading \<^verbatim>\<open>v\<close>, the run is fatal and no
  archive is written.
\<close>

theorem main_bare_version_counterexample:
  "semver_Parse canonical_world (strings_TrimPrefix ''1.0.0'' ''v'') =
     Inr \<lparr>Major = 1, Minor = 0, Patch = 0, Pre = [], Build = []\<rparr>
   \<and> main canonical_world ''example.com/foo'' ''1.0.0'' no_files =
     \<lparr>outcome = Fatal,
      diagnostics =
        [''error creating zip archive: create zip from dir: version is not canonical''],
      events = [EvOpen ''/go/src/example.com/foo/go.mod'',
                EvReadAll ''/go/src/example.com/foo/go.mod'',
                EvCreateFromDir \<lparr>Path = ''example.com/foo'', Version = ''1.0.0''\<rparr>
                  ''/go/src/example.com/foo''],
      files = no_files\<rparr>
   \<and> no_files ''/go/pkg/mod/cache/download/example.com/foo/@v/1.0.0.zip'' = None"
  by (simp add: canonical_steps canonical_run) (simp add: no_files_def)

end
